theory Spec2Isabelle
  imports Main
begin

section \<open>graph-sql: a graph store on two SQL tables\<close>

text \<open>
  The package stores the vertices and edges of a graph in two tables of an SQL database
  (\<^verbatim>\<open>store.go\<close>, \<^verbatim>\<open>config.go\<close>). Every method of \<^verbatim>\<open>Store[K, T]\<close> builds one statement,
  runs it on the database handle and converts the result. The methods are embedded below
  one by one, under their own names. What they call but do not define (the database
  behind \<^verbatim>\<open>*sql.DB\<close>, the statement builder, \<^verbatim>\<open>encoding/json\<close>, the types of the graph
  library) is modelled first, as far as the methods use it.
\<close>

subsection \<open>Errors\<close>

text \<open>
  Go errors as values. \<open>Errorf msg e\<close> is \<^verbatim>\<open>fmt.Errorf("msg: %w", e)\<close>: the message with
  the wrapped error. \<open>ErrNoRows\<close> is \<^verbatim>\<open>sql.ErrNoRows\<close>, \<open>ErrEdgeNotFound\<close> is
  \<^verbatim>\<open>graph.ErrEdgeNotFound\<close>; the next four are what the database reports, \<open>JSONError\<close> is
  an error of \<^verbatim>\<open>encoding/json\<close> with its message. \<open>ConvertError i t\<close> is the error of
  \<^verbatim>\<open>database/sql\<close> for an argument it cannot pass to the driver
  (\<^verbatim>\<open>sql: converting argument $i type: unsupported type t\<close>).
\<close>

datatype error =
    ErrNoRows
  | ErrEdgeNotFound
  | TableExists string
  | NoSuchTable string
  | NoSuchColumn string
  | ScanError nat
  | ScanArity nat nat
  | JSONError string
  | ConvertError nat string
  | Errorf string error

text \<open>\<^verbatim>\<open>errors.Is\<close>: the error itself or one it wraps.\<close>

fun errors_Is :: "error \<Rightarrow> error \<Rightarrow> bool" where
  "errors_Is (Errorf msg e) target = (Errorf msg e = target \<or> errors_Is e target)"
| "errors_Is e target = (e = target)"

subsection \<open>The database\<close>

text \<open>
  A value of a column, as the driver passes it: an integer (\<^verbatim>\<open>int64\<close>), a byte string
  (\<^verbatim>\<open>[]byte\<close>), a \<^verbatim>\<open>string\<close>, a vertex hash (of the type parameter \<^verbatim>\<open>K\<close>), or a
  value of another type that the engine at hand keeps and returns as it is. SQL's NULL is
  \<open>None\<close>. A row maps column names to values.
\<close>

type_synonym bytes = string

datatype ('k, 'd) driver_value =
    SQLInt int
  | SQLBytes bytes
  | SQLString string
  | SQLKey 'k
  | SQLOther 'd

type_synonym ('k, 'd) row = "string \<Rightarrow> ('k, 'd) driver_value option"

text \<open>
  A column of a table definition: its name and its type, where the key column
  \<^verbatim>\<open>id BIGINT UNSIGNED AUTO_INCREMENT PRIMARY KEY\<close> is told apart.
\<close>

datatype column_type = SQLType string | AutoIncrementKey string

record ('k, 'd) table =
  columns :: "(string \<times> column_type) list"
  rows :: "('k, 'd) row list"
  serial :: nat

text \<open>
  The two engines the repository names: MariaDB (its README) numbers the \<^verbatim>\<open>id\<close> column;
  SQLite (its tests) does not know \<^verbatim>\<open>AUTO_INCREMENT\<close> and leaves a key column that is
  not written NULL.
\<close>

datatype dialect = MariaDB | SQLite

record ('k, 'd) database =
  dialect :: dialect
  tables :: "string \<Rightarrow> ('k, 'd) table option"

text \<open>
  The statements the store issues. A condition list is the conjunction of
  \<^verbatim>\<open>column = value\<close> (what \<^verbatim>\<open>sq.Eq\<close> and chained \<^verbatim>\<open>Where\<close> build).
\<close>

type_synonym ('k, 'd) condition = "(string \<times> ('k, 'd) driver_value) list"

datatype ('k, 'd) command =
    CreateTable string "(string \<times> column_type) list"
  | DropTable string
  | Insert string "string list" "('k, 'd) driver_value option list"
  | Delete string "('k, 'd) condition"
  | Update string "(string \<times> ('k, 'd) driver_value option) list" "('k, 'd) condition"

datatype selection = Columns "string list" | CountOf string

datatype ('k, 'd) query = Select selection string "('k, 'd) condition"

definition matches :: "('k, 'd) condition \<Rightarrow> ('k, 'd) row \<Rightarrow> bool" where
  "matches cond r = list_all (\<lambda>(c, v). r c = Some v) cond"

definition unknown_column :: "('k, 'd) table \<Rightarrow> string list \<Rightarrow> string option" where
  "unknown_column tb cs = find (\<lambda>c. c \<notin> set (map fst (columns tb))) cs"

text \<open>
  The row an INSERT makes: the listed columns get the values, a numbered key column gets
  the next number where the engine numbers, every other column is NULL.
\<close>

definition inserted_row ::
  "dialect \<Rightarrow> ('k, 'd) table \<Rightarrow> string list \<Rightarrow> ('k, 'd) driver_value option list \<Rightarrow> ('k, 'd) row"
where
  "inserted_row dl tb cs vs = (\<lambda>c.
     case map_of (zip cs vs) c of
       Some v \<Rightarrow> v
     | None \<Rightarrow>
         (case map_of (columns tb) c of
            Some (AutoIncrementKey ty) \<Rightarrow>
              (if dl = MariaDB then Some (SQLInt (int (serial tb))) else None)
          | _ \<Rightarrow> None))"

definition assign ::
  "(string \<times> ('k, 'd) driver_value option) list \<Rightarrow> ('k, 'd) row \<Rightarrow> ('k, 'd) row"
where
  "assign sets r = fold (\<lambda>(c, v) r'. r'(c := v)) sets r"

text \<open>
  \<^verbatim>\<open>Exec\<close>: the database after the command, and the error. A command that fails changes
  nothing. DELETE and UPDATE of no row succeed.
\<close>

fun Exec :: "('k, 'd) command \<Rightarrow> ('k, 'd) database \<Rightarrow> ('k, 'd) database \<times> error option" where
  "Exec (CreateTable n cols) d =
     (case tables d n of
        Some tb \<Rightarrow> (d, Some (TableExists n))
      | None \<Rightarrow>
          (d\<lparr>tables := (tables d)(n \<mapsto> \<lparr>columns = cols, rows = [], serial = 1\<rparr>)\<rparr>, None))"
| "Exec (DropTable n) d =
     (case tables d n of
        None \<Rightarrow> (d, Some (NoSuchTable n))
      | Some tb \<Rightarrow> (d\<lparr>tables := (tables d)(n := None)\<rparr>, None))"
| "Exec (Insert n cs vs) d =
     (case tables d n of
        None \<Rightarrow> (d, Some (NoSuchTable n))
      | Some tb \<Rightarrow>
          (case unknown_column tb cs of
             Some c \<Rightarrow> (d, Some (NoSuchColumn c))
           | None \<Rightarrow>
               (d\<lparr>tables := (tables d)(n \<mapsto>
                    tb\<lparr>rows := rows tb @ [inserted_row (dialect d) tb cs vs],
                       serial := Suc (serial tb)\<rparr>)\<rparr>, None)))"
| "Exec (Delete n cond) d =
     (case tables d n of
        None \<Rightarrow> (d, Some (NoSuchTable n))
      | Some tb \<Rightarrow>
          (case unknown_column tb (map fst cond) of
             Some c \<Rightarrow> (d, Some (NoSuchColumn c))
           | None \<Rightarrow>
               (d\<lparr>tables := (tables d)(n \<mapsto>
                    tb\<lparr>rows := filter (\<lambda>r. \<not> matches cond r) (rows tb)\<rparr>)\<rparr>, None)))"
| "Exec (Update n sets cond) d =
     (case tables d n of
        None \<Rightarrow> (d, Some (NoSuchTable n))
      | Some tb \<Rightarrow>
          (case unknown_column tb (map fst sets @ map fst cond) of
             Some c \<Rightarrow> (d, Some (NoSuchColumn c))
           | None \<Rightarrow>
               (d\<lparr>tables := (tables d)(n \<mapsto>
                    tb\<lparr>rows := map (\<lambda>r. if matches cond r then assign sets r else r)
                                  (rows tb)\<rparr>)\<rparr>, None)))"

text \<open>
  \<^verbatim>\<open>Query\<close>: the result rows, in the order of the table. \<^verbatim>\<open>count(c)\<close> gives one row
  with the number of selected rows whose column \<open>c\<close> is not NULL.
\<close>

definition selection_columns :: "selection \<Rightarrow> string list" where
  "selection_columns sel = (case sel of Columns cs \<Rightarrow> cs | CountOf c \<Rightarrow> [c])"

fun Query ::
  "('k, 'd) query \<Rightarrow> ('k, 'd) database \<Rightarrow> error + ('k, 'd) driver_value option list list"
where
  "Query (Select sel n cond) d =
     (case tables d n of
        None \<Rightarrow> Inl (NoSuchTable n)
      | Some tb \<Rightarrow>
          (case unknown_column tb (selection_columns sel @ map fst cond) of
             Some c \<Rightarrow> Inl (NoSuchColumn c)
           | None \<Rightarrow>
               (case sel of
                  Columns cs \<Rightarrow> Inr (map (\<lambda>r. map r cs) (filter (matches cond) (rows tb)))
                | CountOf c \<Rightarrow>
                    Inr [[Some (SQLInt (int (length
                      (filter (\<lambda>r. r c \<noteq> None) (filter (matches cond) (rows tb))))))]])))"

text \<open>
  \<^verbatim>\<open>QueryRow\<close>: the first row of the result; \<^verbatim>\<open>sql.ErrNoRows\<close> when there is none (the
  error \<^verbatim>\<open>Row.Scan\<close> gives then).
\<close>

definition QueryRow ::
  "('k, 'd) query \<Rightarrow> ('k, 'd) database \<Rightarrow> error + ('k, 'd) driver_value option list"
where
  "QueryRow q d =
     (case Query q d of
        Inl err \<Rightarrow> Inl err
      | Inr [] \<Rightarrow> Inl ErrNoRows
      | Inr (r # rs) \<Rightarrow> Inr r)"

text \<open>
  \<^verbatim>\<open>Scan\<close> into one destination, by the destination's type: \<^verbatim>\<open>*[]byte\<close> (NULL gives the
  nil slice, a string its bytes), \<^verbatim>\<open>*int\<close>, \<^verbatim>\<open>*K\<close> and \<^verbatim>\<open>*any\<close> (which takes every value
  as the driver returns it). A value of another kind than the destination's is a scan
  error, with the column's index.
\<close>

fun scan_bytes :: "nat \<Rightarrow> ('k, 'd) driver_value option \<Rightarrow> error + bytes" where
  "scan_bytes i None = Inr []"
| "scan_bytes i (Some (SQLBytes b)) = Inr b"
| "scan_bytes i (Some (SQLString b)) = Inr b"
| "scan_bytes i (Some v) = Inl (ScanError i)"

fun scan_int :: "nat \<Rightarrow> ('k, 'd) driver_value option \<Rightarrow> error + int" where
  "scan_int i (Some (SQLInt n)) = Inr n"
| "scan_int i v = Inl (ScanError i)"

fun scan_key :: "nat \<Rightarrow> ('k, 'd) driver_value option \<Rightarrow> error + 'k" where
  "scan_key i (Some (SQLKey k)) = Inr k"
| "scan_key i v = Inl (ScanError i)"

subsection \<open>The types of the graph library and of encoding/json\<close>

text \<open>
  A value of the Go type \<^verbatim>\<open>any\<close>, as the \<^verbatim>\<open>Data\<close> of an edge holds it: a value of a type
  the driver takes and returns (nil, which is \<open>DriverValue None\<close>, an \<^verbatim>\<open>int64\<close>, a
  \<^verbatim>\<open>[]byte\<close>, a \<^verbatim>\<open>string\<close>); an \<^verbatim>\<open>int\<close>; or a value of a type that \<^verbatim>\<open>database/sql\<close>
  cannot convert (a struct, a map), given by the name of its type.
\<close>

datatype ('k, 'd) go_any =
    DriverValue "('k, 'd) driver_value option"
  | GoInt int
  | Unsupported string

text \<open>
  What \<^verbatim>\<open>database/sql\<close> makes of an argument of type \<^verbatim>\<open>any\<close> before the statement runs
  (its default converter): a value of a driver type passes, an \<^verbatim>\<open>int\<close> becomes an
  \<^verbatim>\<open>int64\<close>, and a value it cannot convert fails the call, \<open>i\<close> being the position of the
  argument.
\<close>

definition convert_argument ::
  "nat \<Rightarrow> ('k, 'd) go_any \<Rightarrow> error + ('k, 'd) driver_value option"
where
  "convert_argument i d =
     (case d of
        DriverValue v \<Rightarrow> Inr v
      | GoInt n \<Rightarrow> Inr (Some (SQLInt n))
      | Unsupported t \<Rightarrow> Inl (ConvertError i t))"

text \<open>The decimal text of an integer.\<close>

function decimal_nat :: "nat \<Rightarrow> string" where
  "decimal_nat n =
     (if n < 10 then [''0123456789'' ! n]
      else decimal_nat (n div 10) @ [''0123456789'' ! (n mod 10)])"
  by pat_completeness auto
termination
  by (relation "measure (\<lambda>n. n)") auto

declare decimal_nat.simps [simp del]

definition decimal :: "int \<Rightarrow> string" where
  "decimal i = (if i < 0 then CHR ''-'' # decimal_nat (nat (- i)) else decimal_nat (nat i))"

text \<open>
  What the engine keeps, and the driver returns, of a value written to the column
  \<^verbatim>\<open>data BLOB\<close>: MariaDB keeps bytes, the bytes of a string and the decimal text of an
  integer; SQLite keeps the value as it is written.
\<close>

fun stored_in_blob ::
  "dialect \<Rightarrow> ('k, 'd) driver_value option \<Rightarrow> ('k, 'd) driver_value option"
where
  "stored_in_blob MariaDB (Some (SQLInt n)) = Some (SQLBytes (decimal n))"
| "stored_in_blob MariaDB (Some (SQLString b)) = Some (SQLBytes b)"
| "stored_in_blob dl v = v"

text \<open>
  The \<^verbatim>\<open>data\<close> argument of \<^verbatim>\<open>AddEdge\<close> and \<^verbatim>\<open>UpdateEdge\<close>, as the statement writes it: the
  only argument of type \<^verbatim>\<open>any\<close>, and the only BLOB column. (The other arguments are a
  \<^verbatim>\<open>[]byte\<close>, an \<^verbatim>\<open>int\<close> read back into an \<^verbatim>\<open>int\<close>, and hashes.) Both steps are part of
  \<^verbatim>\<open>Exec\<close> in Go; its error is the error of the call.
\<close>

definition data_argument ::
  "dialect \<Rightarrow> nat \<Rightarrow> ('k, 'd) go_any \<Rightarrow> error + ('k, 'd) driver_value option"
where
  "data_argument dl i d =
     (case convert_argument i d of
        Inl err \<Rightarrow> Inl err
      | Inr v \<Rightarrow> Inr (stored_in_blob dl v))"

text \<open>
  \<^verbatim>\<open>graph.VertexProperties\<close>, \<^verbatim>\<open>graph.EdgeProperties\<close> (the same with \<^verbatim>\<open>Data any\<close>) and
  \<^verbatim>\<open>graph.Edge[K]\<close>. An attribute map is \<^verbatim>\<open>map[string]string\<close>.
\<close>

type_synonym attributes = "string \<Rightarrow> string option"

record VertexProperties =
  Attributes :: attributes
  Weight :: int

record ('k, 'd) EdgeProperties = VertexProperties +
  Data :: "('k, 'd) go_any"

record ('k, 'd) Edge =
  Source :: 'k
  Target :: 'k
  Properties :: "('k, 'd) EdgeProperties"

text \<open>
  \<^verbatim>\<open>encoding/json\<close> at the two types the store encodes: the vertex value type \<^verbatim>\<open>T\<close> and
  \<^verbatim>\<open>map[string]string\<close>. \<^verbatim>\<open>Marshal\<close> gives the text or an error message;
  \<^verbatim>\<open>Unmarshal(data, &x)\<close> takes the text and what \<open>x\<close> holds and gives what \<open>x\<close> holds
  afterwards, and the error message if any. \<open>ZeroValue\<close> is the zero value of \<^verbatim>\<open>T\<close>
  (\<^verbatim>\<open>var value T\<close>).
\<close>

record 't json =
  MarshalValue :: "'t \<Rightarrow> string + bytes"
  UnmarshalValue :: "bytes \<Rightarrow> 't \<Rightarrow> 't \<times> string option"
  MarshalAttributes :: "attributes \<Rightarrow> string + bytes"
  UnmarshalAttributes :: "bytes \<Rightarrow> attributes \<Rightarrow> attributes \<times> string option"
  ZeroValue :: 't

subsection \<open>config.go\<close>

record Config =
  VerticesTable :: string
  EdgesTable :: string
  VertexHashType :: string
  VertexValueType :: string

definition DefaultConfig :: Config where
  "DefaultConfig =
     \<lparr>VerticesTable = ''vertices'', EdgesTable = ''edges'',
      VertexHashType = ''TEXT'', VertexValueType = ''JSON''\<rparr>"

text \<open>The four statement templates, filled in from the configuration.\<close>

definition createVerticesTableSQL :: "Config \<Rightarrow> ('k, 'd) command" where
  "createVerticesTableSQL c =
     CreateTable (VerticesTable c)
       [(''id'', AutoIncrementKey ''BIGINT UNSIGNED''),
        (''hash'', SQLType (VertexHashType c)),
        (''value'', SQLType (VertexValueType c)),
        (''weight'', SQLType ''INT''),
        (''attributes'', SQLType ''JSON'')]"

definition createEdgesTableSQL :: "Config \<Rightarrow> ('k, 'd) command" where
  "createEdgesTableSQL c =
     CreateTable (EdgesTable c)
       [(''id'', AutoIncrementKey ''BIGINT UNSIGNED''),
        (''source_hash'', SQLType (VertexHashType c)),
        (''target_hash'', SQLType (VertexHashType c)),
        (''weight'', SQLType ''INT''),
        (''attributes'', SQLType ''JSON''),
        (''data'', SQLType ''BLOB'')]"



subsection \<open>store.go\<close>

text \<open>
  The store holds the database handle and the configuration. A method that writes
  returns the store with the database after the call, and the error (\<open>None\<close> is nil); a
  method that reads returns what the Go method returns.
\<close>

record ('k, 'd) Store =
  db :: "('k, 'd) database"
  config :: Config

definition New :: "('k, 'd) database \<Rightarrow> Config \<Rightarrow> ('k, 'd) Store" where
  "New d c = \<lparr>db = d, config = c\<rparr>"

definition SetupTables :: "('k, 'd) Store \<Rightarrow> ('k, 'd) Store \<times> error option" where
  "SetupTables s =
     (case Exec (createVerticesTableSQL (config s)) (db s) of
        (d1, Some err) \<Rightarrow>
          (s\<lparr>db := d1\<rparr>,
           Some (Errorf (''failed to set up '' @ VerticesTable (config s) @ '' table'') err))
      | (d1, None) \<Rightarrow>
          (case Exec (createEdgesTableSQL (config s)) d1 of
             (d2, Some err) \<Rightarrow>
               (s\<lparr>db := d2\<rparr>,
                Some (Errorf (''failed to set up '' @ EdgesTable (config s) @ '' table'') err))
           | (d2, None) \<Rightarrow> (s\<lparr>db := d2\<rparr>, None)))"


definition AddVertex ::
  "'t json \<Rightarrow> ('k, 'd) Store \<Rightarrow> 'k \<Rightarrow> 't \<Rightarrow> VertexProperties \<Rightarrow> ('k, 'd) Store \<times> error option"
where
  "AddVertex j s hash val properties =
     (case MarshalValue j val of
        Inl m \<Rightarrow> (s, Some (JSONError m))
      | Inr valueBytes \<Rightarrow>
          (case MarshalAttributes j (Attributes properties) of
             Inl m \<Rightarrow> (s, Some (JSONError m))
           | Inr attributeBytes \<Rightarrow>
               (case Exec (Insert (VerticesTable (config s))
                             [''hash'', ''value'', ''weight'', ''attributes'']
                             [Some (SQLKey hash), Some (SQLBytes valueBytes),
                              Some (SQLInt (Weight properties)), Some (SQLBytes attributeBytes)])
                          (db s) of
                  (d, err) \<Rightarrow> (s\<lparr>db := d\<rparr>, err))))"

definition RemoveVertex :: "('k, 'd) Store \<Rightarrow> 'k \<Rightarrow> ('k, 'd) Store \<times> error option" where
  "RemoveVertex s hash =
     (case Exec (Delete (VerticesTable (config s)) [(''hash'', SQLKey hash)]) (db s) of
        (d, err) \<Rightarrow> (s\<lparr>db := d\<rparr>, err))"

text \<open>
  \<^verbatim>\<open>Scan\<close> fills its destinations from left to right and stops at the first that fails:
  \<^verbatim>\<open>properties.Weight\<close> is already set when the attributes column fails.
\<close>

definition Vertex ::
  "'t json \<Rightarrow> ('k, 'd) Store \<Rightarrow> 'k \<Rightarrow> 't \<times> VertexProperties \<times> error option"
where
  "Vertex j s hash =
     (let val = ZeroValue j;
          properties = \<lparr>Attributes = Map.empty, Weight = 0\<rparr>;
          failed = (\<lambda>p err. (val, p, Some (Errorf ''failed to query vertex'' err)))
      in
      case QueryRow (Select (Columns [''value'', ''weight'', ''attributes''])
                       (VerticesTable (config s)) [(''hash'', SQLKey hash)]) (db s) of
        Inl err \<Rightarrow> failed properties err
      | Inr [c0, c1, c2] \<Rightarrow>
          (case scan_bytes 0 c0 of
             Inl err \<Rightarrow> failed properties err
           | Inr valueBytes \<Rightarrow>
               (case scan_int 1 c1 of
                  Inl err \<Rightarrow> failed properties err
                | Inr w \<Rightarrow>
                    (let properties = properties\<lparr>Weight := w\<rparr> in
                     case scan_bytes 2 c2 of
                       Inl err \<Rightarrow> failed properties err
                     | Inr attributesBytes \<Rightarrow>
                         (case UnmarshalValue j valueBytes val of
                            (val, Some m) \<Rightarrow>
                              (val, properties,
                               Some (Errorf ''failed to unmarshal value'' (JSONError m)))
                          | (val, None) \<Rightarrow>
                              (case UnmarshalAttributes j attributesBytes
                                      (Attributes properties) of
                                 (a, Some m) \<Rightarrow>
                                   (val, properties\<lparr>Attributes := a\<rparr>,
                                    Some (Errorf ''failed to unmarshal attributes''
                                            (JSONError m)))
                               | (a, None) \<Rightarrow>
                                   (val, properties\<lparr>Attributes := a\<rparr>, None))))))
      | Inr cs \<Rightarrow> failed properties (ScanArity 3 (length cs)))"

text \<open>The loop over the result rows, with the slice built so far.\<close>

fun ListVertices_loop ::
  "('k, 'd) driver_value option list list \<Rightarrow> 'k list \<Rightarrow> 'k list \<times> error option"
where
  "ListVertices_loop [] hashes = (hashes, None)"
| "ListVertices_loop (r # rs) hashes =
     (case r of
        [c0] \<Rightarrow>
          (case scan_key 0 c0 of
             Inl err \<Rightarrow> ([], Some (Errorf ''failed to scan row'' err))
           | Inr hash \<Rightarrow> ListVertices_loop rs (hashes @ [hash]))
      | _ \<Rightarrow> ([], Some (Errorf ''failed to scan row'' (ScanArity 1 (length r)))))"

definition ListVertices :: "('k, 'd) Store \<Rightarrow> 'k list \<times> error option" where
  "ListVertices s =
     (case Query (Select (Columns [''hash'']) (VerticesTable (config s)) []) (db s) of
        Inl err \<Rightarrow> ([], Some (Errorf ''failed to query vertices'' err))
      | Inr rs \<Rightarrow> ListVertices_loop rs [])"

text \<open>
  The two counts scan the one result row into \<^verbatim>\<open>count\<close> and return the scan's error as
  it is; \<^verbatim>\<open>count\<close> is 0 when the scan failed.
\<close>

definition scan_count :: "error + ('k, 'd) driver_value option list \<Rightarrow> int \<times> error option" where
  "scan_count res =
     (case res of
        Inl err \<Rightarrow> (0, Some err)
      | Inr [c0] \<Rightarrow> (case scan_int 0 c0 of Inl err \<Rightarrow> (0, Some err) | Inr n \<Rightarrow> (n, None))
      | Inr cs \<Rightarrow> (0, Some (ScanArity 1 (length cs))))"

definition VertexCount :: "('k, 'd) Store \<Rightarrow> int \<times> error option" where
  "VertexCount s =
     scan_count (QueryRow (Select (CountOf ''hash'') (VerticesTable (config s)) []) (db s))"

definition AddEdge ::
  "'t json \<Rightarrow> ('k, 'd) Store \<Rightarrow> 'k \<Rightarrow> 'k \<Rightarrow> ('k, 'd) Edge \<Rightarrow> ('k, 'd) Store \<times> error option"
where
  "AddEdge j s sourceHash targetHash edge =
     (case MarshalAttributes j (Attributes (Properties edge)) of
        Inl m \<Rightarrow> (s, Some (JSONError m))
      | Inr attributesBytes \<Rightarrow>
          (case data_argument (dialect (db s)) 5 (Data (Properties edge)) of
             Inl err \<Rightarrow> (s, Some err)
           | Inr dt \<Rightarrow>
               (case Exec (Insert (EdgesTable (config s))
                             [''source_hash'', ''target_hash'', ''weight'', ''attributes'',
                              ''data'']
                             [Some (SQLKey sourceHash), Some (SQLKey targetHash),
                              Some (SQLInt (Weight (Properties edge))),
                              Some (SQLBytes attributesBytes), dt])
                          (db s) of
                  (d, err) \<Rightarrow> (s\<lparr>db := d\<rparr>, err))))"

definition RemoveEdge :: "('k, 'd) Store \<Rightarrow> 'k \<Rightarrow> 'k \<Rightarrow> ('k, 'd) Store \<times> error option" where
  "RemoveEdge s sourceHash targetHash =
     (case Exec (Delete (EdgesTable (config s))
                   [(''source_hash'', SQLKey sourceHash), (''target_hash'', SQLKey targetHash)])
                (db s) of
        (d, err) \<Rightarrow> (s\<lparr>db := d\<rparr>, err))"

definition zeroEdgeProperties :: "('k, 'd) EdgeProperties" where
  "zeroEdgeProperties = \<lparr>Attributes = Map.empty, Weight = 0, Data = DriverValue None\<rparr>"

definition Edge ::
  "'t json \<Rightarrow> ('k, 'd) Store \<Rightarrow> 'k \<Rightarrow> 'k \<Rightarrow> ('k, 'd) Edge \<times> error option"
where
  "Edge j s sourceHash targetHash =
     (let edge = \<lparr>Source = sourceHash, Target = targetHash, Properties = zeroEdgeProperties\<rparr>;
          failed = (\<lambda>e err.
            if errors_Is err ErrNoRows then (e, Some ErrEdgeNotFound)
            else (e, Some (Errorf ''failed to scan row'' err)))
      in
      case QueryRow (Select (Columns [''weight'', ''attributes'', ''data''])
                       (EdgesTable (config s))
                       [(''source_hash'', SQLKey sourceHash), (''target_hash'', SQLKey targetHash)])
                    (db s) of
        Inl err \<Rightarrow> failed edge err
      | Inr [c0, c1, c2] \<Rightarrow>
          (case scan_int 0 c0 of
             Inl err \<Rightarrow> failed edge err
           | Inr w \<Rightarrow>
               (let edge = edge\<lparr>Properties := (Properties edge)\<lparr>Weight := w\<rparr>\<rparr> in
                case scan_bytes 1 c1 of
                  Inl err \<Rightarrow> failed edge err
                | Inr attributesBytes \<Rightarrow>
                    (let edge = edge\<lparr>Properties := (Properties edge)\<lparr>Data := DriverValue c2\<rparr>\<rparr> in
                     case UnmarshalAttributes j attributesBytes
                            (Attributes (Properties edge)) of
                       (a, Some m) \<Rightarrow>
                         (edge\<lparr>Properties := (Properties edge)\<lparr>Attributes := a\<rparr>\<rparr>,
                          Some (Errorf ''failed to unmarshal attributes'' (JSONError m)))
                     | (a, None) \<Rightarrow>
                         (edge\<lparr>Properties := (Properties edge)\<lparr>Attributes := a\<rparr>\<rparr>, None))))
      | Inr cs \<Rightarrow> failed edge (ScanArity 3 (length cs)))"

text \<open>
  The body of the loop of \<^verbatim>\<open>ListEdges\<close>: one result row scanned into an edge and its
  attributes decoded, or the error the loop returns.
\<close>

definition scan_edge_row ::
  "'t json \<Rightarrow> ('k, 'd) driver_value option list \<Rightarrow> error + ('k, 'd) Edge"
where
  "scan_edge_row j r =
     (case r of
        [c0, c1, c2, c3, c4] \<Rightarrow>
          (case scan_key 0 c0 of
             Inl err \<Rightarrow> Inl (Errorf ''failed to scan row'' err)
           | Inr src \<Rightarrow>
          (case scan_key 1 c1 of
             Inl err \<Rightarrow> Inl (Errorf ''failed to scan row'' err)
           | Inr tgt \<Rightarrow>
          (case scan_int 2 c2 of
             Inl err \<Rightarrow> Inl (Errorf ''failed to scan row'' err)
           | Inr w \<Rightarrow>
          (case scan_bytes 3 c3 of
             Inl err \<Rightarrow> Inl (Errorf ''failed to scan row'' err)
           | Inr attributesBytes \<Rightarrow>
          (case UnmarshalAttributes j attributesBytes Map.empty of
             (a, Some m) \<Rightarrow> Inl (Errorf ''failed to unmarshal attributes'' (JSONError m))
           | (a, None) \<Rightarrow>
               Inr \<lparr>Source = src, Target = tgt,
                    Properties = \<lparr>Attributes = a, Weight = w, Data = DriverValue c4\<rparr>\<rparr>)))))
      | _ \<Rightarrow> Inl (Errorf ''failed to scan row'' (ScanArity 5 (length r))))"

text \<open>The loop: the first row that fails ends it with nil and the error.\<close>

fun ListEdges_loop ::
  "'t json \<Rightarrow> ('k, 'd) driver_value option list list \<Rightarrow> ('k, 'd) Edge list \<Rightarrow>
   ('k, 'd) Edge list \<times> error option"
where
  "ListEdges_loop j [] edges = (edges, None)"
| "ListEdges_loop j (r # rs) edges =
     (case scan_edge_row j r of
        Inl err \<Rightarrow> ([], Some err)
      | Inr edge \<Rightarrow> ListEdges_loop j rs (edges @ [edge]))"

definition ListEdges :: "'t json \<Rightarrow> ('k, 'd) Store \<Rightarrow> ('k, 'd) Edge list \<times> error option" where
  "ListEdges j s =
     (case Query (Select (Columns [''source_hash'', ''target_hash'', ''weight'',
                                   ''attributes'', ''data''])
                    (EdgesTable (config s)) []) (db s) of
        Inl err \<Rightarrow> ([], Some (Errorf ''failed to query edges'' err))
      | Inr rs \<Rightarrow> ListEdges_loop j rs [])"

definition EdgeCount :: "('k, 'd) Store \<Rightarrow> int \<times> error option" where
  "EdgeCount s =
     scan_count (QueryRow (Select (CountOf ''source_hash'') (EdgesTable (config s)) []) (db s))"

definition UpdateEdge ::
  "'t json \<Rightarrow> ('k, 'd) Store \<Rightarrow> 'k \<Rightarrow> 'k \<Rightarrow> ('k, 'd) Edge \<Rightarrow> ('k, 'd) Store \<times> error option"
where
  "UpdateEdge j s sourceHash targetHash edge =
     (case MarshalAttributes j (Attributes (Properties edge)) of
        Inl m \<Rightarrow> (s, Some (JSONError m))
      | Inr attributesBytes \<Rightarrow>
          (case data_argument (dialect (db s)) 3 (Data (Properties edge)) of
             Inl err \<Rightarrow> (s, Some err)
           | Inr dt \<Rightarrow>
               (case Exec (Update (EdgesTable (config s))
                             [(''weight'', Some (SQLInt (Weight (Properties edge)))),
                              (''attributes'', Some (SQLBytes attributesBytes)),
                              (''data'', dt)]
                             [(''source_hash'', SQLKey sourceHash),
                              (''target_hash'', SQLKey targetHash)])
                          (db s) of
                  (d, err) \<Rightarrow> (s\<lparr>db := d\<rparr>, err))))"

subsection \<open>The store of the repository's tests\<close>

text \<open>
  \<^verbatim>\<open>createStore\<close> of the test file opens an empty SQLite database in memory, makes the
  store with \<open>DefaultConfig\<close> and sets the tables up. The tests use \<^verbatim>\<open>Store[int, int]\<close>.
\<close>

definition memory_database :: "dialect \<Rightarrow> ('k, 'd) database" where
  "memory_database dl = \<lparr>dialect = dl, tables = Map.empty\<rparr>"

definition createStore :: "('k, 'd) Store \<times> error option" where
  "createStore = SetupTables (New (memory_database SQLite) DefaultConfig)"

text \<open>
  The JSON texts of a few values, as a table read in both directions: \<^verbatim>\<open>Marshal\<close> finds
  the text of a value, \<^verbatim>\<open>Unmarshal\<close> the value of a text, and a value or text that is not
  in the table is an error that leaves the destination as it was.
\<close>

definition json_of_table :: "('t \<times> bytes) list \<Rightarrow> (attributes \<times> bytes) list \<Rightarrow> 't \<Rightarrow> 't json" where
  "json_of_table vt at z =
     \<lparr>MarshalValue = (\<lambda>v. case map_of vt v of
                              Some b \<Rightarrow> Inr b
                            | None \<Rightarrow> Inl ''json: unsupported value''),
      UnmarshalValue = (\<lambda>b old. case map_of (map prod.swap vt) b of
                                  Some v \<Rightarrow> (v, None)
                                | None \<Rightarrow> (old, Some ''json: cannot unmarshal'')),
      MarshalAttributes = (\<lambda>m. case map_of at m of
                                   Some b \<Rightarrow> Inr b
                                 | None \<Rightarrow> Inl ''json: unsupported value''),
      UnmarshalAttributes = (\<lambda>b old. case map_of (map prod.swap at) b of
                                       Some m \<Rightarrow> (m, None)
                                     | None \<Rightarrow> (old, Some ''json: cannot unmarshal'')),
      ZeroValue = z\<rparr>"

text \<open>
  The integers 1 to 4, the nil attribute map and the map of \<^verbatim>\<open>TestUpdateEdge\<close>, with the
  texts \<^verbatim>\<open>encoding/json\<close> gives them.
\<close>

definition test_json :: "int json" where
  \<open>test_json =
     json_of_table [(1, ''1''), (2, ''2''), (3, ''3''), (4, ''4'')]
       [(Map.empty, ''null''), ([''abc'' \<mapsto> ''xyz''], ''{"abc":"xyz"}'')] 0\<close>

text \<open>
  A value of the Go type \<^verbatim>\<open>any\<close>, as far as an example needs it: nil, an \<^verbatim>\<open>int\<close>, or
  a \<^verbatim>\<open>float64\<close> that is a whole number. \<^verbatim>\<open>encoding/json\<close> writes the \<^verbatim>\<open>int\<close> 1 and
  the \<^verbatim>\<open>float64\<close> 1 as \<^verbatim>\<open>1\<close>, and reads a number into an \<^verbatim>\<open>any\<close> as a
  \<^verbatim>\<open>float64\<close>.
\<close>

datatype any_value = AnyNil | AnyInt int | AnyFloat64 int

definition any_json :: "any_value json" where
  "any_json =
     json_of_table [(AnyFloat64 1, ''1''), (AnyInt 1, ''1'')] [(Map.empty, ''null'')] AnyNil"

text \<open>
  \<^verbatim>\<open>encoding/json\<close> on a string that is not valid UTF-8: \<^verbatim>\<open>Marshal\<close> writes each invalid byte
  as the escape of the replacement character U+FFFD (a backslash and \<^verbatim>\<open>ufffd\<close>), and
  \<^verbatim>\<open>Unmarshal\<close> reads the escape as the three bytes of that character, adding the key to
  the map it is given. The codec of the tests, with the attribute map that gives the key
  \<^verbatim>\<open>k\<close> the one byte \<^verbatim>\<open>FF\<close>.
\<close>

definition replacement_text :: bytes where
  \<open>replacement_text = ''{"k":"'' @ [CHR 0x5C] @ ''ufffd"}''\<close>

definition invalid_utf8_json :: "int json" where
  "invalid_utf8_json = test_json
     \<lparr>MarshalAttributes := (\<lambda>m.
        if m = [''k'' \<mapsto> [CHR 0xFF]] then Inr replacement_text
        else MarshalAttributes test_json m),
      UnmarshalAttributes := (\<lambda>b old.
        if b = replacement_text then (old(''k'' \<mapsto> [CHR 0xEF, CHR 0xBF, CHR 0xBD]), None)
        else UnmarshalAttributes test_json b old)\<rparr>"

definition zeroVertexProperties :: VertexProperties where
  "zeroVertexProperties = \<lparr>Attributes = Map.empty, Weight = 0\<rparr>"

subsection \<open>Sequences of calls\<close>

text \<open>
  A caller's calls of the five methods that write, run one after the other on a store.
  \<open>run\<close> gives the store after the last call, \<open>outcomes\<close> the error of each call; a call
  that fails does not stop the sequence (the tests do not look at most errors either).
\<close>

datatype ('k, 't, 'd) call =
    CallAddVertex 'k 't VertexProperties
  | CallRemoveVertex 'k
  | CallAddEdge 'k 'k "('k, 'd) Edge"
  | CallRemoveEdge 'k 'k
  | CallUpdateEdge 'k 'k "('k, 'd) Edge"

fun apply_call ::
  "'t json \<Rightarrow> ('k, 't, 'd) call \<Rightarrow> ('k, 'd) Store \<Rightarrow> ('k, 'd) Store \<times> error option"
where
  "apply_call j (CallAddVertex k v p) s = AddVertex j s k v p"
| "apply_call j (CallRemoveVertex k) s = RemoveVertex s k"
| "apply_call j (CallAddEdge a b e) s = AddEdge j s a b e"
| "apply_call j (CallRemoveEdge a b) s = RemoveEdge s a b"
| "apply_call j (CallUpdateEdge a b e) s = UpdateEdge j s a b e"

fun run :: "'t json \<Rightarrow> ('k, 't, 'd) call list \<Rightarrow> ('k, 'd) Store \<Rightarrow> ('k, 'd) Store" where
  "run j [] s = s"
| "run j (c # cs) s = run j cs (fst (apply_call j c s))"

fun outcomes :: "'t json \<Rightarrow> ('k, 't, 'd) call list \<Rightarrow> ('k, 'd) Store \<Rightarrow> error option list" where
  "outcomes j [] s = []"
| "outcomes j (c # cs) s = snd (apply_call j c s) # outcomes j cs (fst (apply_call j c s))"

definition call_log ::
  "'t json \<Rightarrow> ('k, 't, 'd) call list \<Rightarrow> ('k, 'd) Store \<Rightarrow> (('k, 't, 'd) call \<times> error option) list"
where
  "call_log j cs s = zip cs (outcomes j cs s)"


text \<open>The numbers of \<open>AddVertex\<close> and of \<open>RemoveVertex\<close> calls of a log that succeeded.\<close>

fun vertices_added :: "(('k, 't, 'd) call \<times> error option) list \<Rightarrow> nat" where
  "vertices_added [] = 0"
| "vertices_added ((CallAddVertex k v p, None) # l) = Suc (vertices_added l)"
| "vertices_added (c # l) = vertices_added l"

fun vertices_removed :: "(('k, 't, 'd) call \<times> error option) list \<Rightarrow> nat" where
  "vertices_removed [] = 0"
| "vertices_removed ((CallRemoveVertex k, None) # l) = Suc (vertices_removed l)"
| "vertices_removed (c # l) = vertices_removed l"

text \<open>
  A log in which every \<open>AddVertex\<close> that succeeded added a hash that was not stored then,
  and every \<open>RemoveVertex\<close> that succeeded removed a hash that was stored then;
  \<open>present\<close> are the hashes stored at the start.
\<close>

fun adds_new_removes_stored ::
  "'k list \<Rightarrow> (('k, 't, 'd) call \<times> error option) list \<Rightarrow> bool"
where
  "adds_new_removes_stored present [] = True"
| "adds_new_removes_stored present ((CallAddVertex k v p, None) # l) =
     (k \<notin> set present \<and> adds_new_removes_stored (present @ [k]) l)"
| "adds_new_removes_stored present ((CallRemoveVertex k, None) # l) =
     (k \<in> set present \<and> adds_new_removes_stored (filter (\<lambda>x. x \<noteq> k) present) l)"
| "adds_new_removes_stored present (c # l) = adds_new_removes_stored present l"

subsection \<open>What the two tables hold\<close>

text \<open>
  The notions the properties are stated with: the table a store's configuration names,
  whether it exists with the columns the store's statements use, its rows, and the hashes
  in its rows.
\<close>

definition vertices_table :: "('k, 'd) Store \<Rightarrow> ('k, 'd) table option" where
  "vertices_table s = tables (db s) (VerticesTable (config s))"

definition edges_table :: "('k, 'd) Store \<Rightarrow> ('k, 'd) table option" where
  "edges_table s = tables (db s) (EdgesTable (config s))"

definition has_columns :: "('k, 'd) table option \<Rightarrow> string list \<Rightarrow> bool" where
  "has_columns t cs = (case t of None \<Rightarrow> False | Some tb \<Rightarrow> unknown_column tb cs = None)"

definition vertices_ready :: "('k, 'd) Store \<Rightarrow> bool" where
  "vertices_ready s =
     has_columns (vertices_table s) [''hash'', ''value'', ''weight'', ''attributes'']"

definition edges_ready :: "('k, 'd) Store \<Rightarrow> bool" where
  "edges_ready s =
     has_columns (edges_table s)
       [''source_hash'', ''target_hash'', ''weight'', ''attributes'', ''data'']"

definition ready :: "('k, 'd) Store \<Rightarrow> bool" where
  "ready s =
     (vertices_ready s \<and> edges_ready s \<and> VerticesTable (config s) \<noteq> EdgesTable (config s))"

definition vertex_rows :: "('k, 'd) Store \<Rightarrow> ('k, 'd) row list" where
  "vertex_rows s = (case vertices_table s of None \<Rightarrow> [] | Some tb \<Rightarrow> rows tb)"

definition edge_rows :: "('k, 'd) Store \<Rightarrow> ('k, 'd) row list" where
  "edge_rows s = (case edges_table s of None \<Rightarrow> [] | Some tb \<Rightarrow> rows tb)"

definition vertex_rows_of :: "('k, 'd) Store \<Rightarrow> 'k \<Rightarrow> ('k, 'd) row list" where
  "vertex_rows_of s hash = filter (\<lambda>r. r ''hash'' = Some (SQLKey hash)) (vertex_rows s)"

definition edge_row_matches :: "'k \<Rightarrow> 'k \<Rightarrow> ('k, 'd) row \<Rightarrow> bool" where
  "edge_row_matches a b r =
     (r ''source_hash'' = Some (SQLKey a) \<and> r ''target_hash'' = Some (SQLKey b))"

definition edge_rows_of :: "('k, 'd) Store \<Rightarrow> 'k \<Rightarrow> 'k \<Rightarrow> ('k, 'd) row list" where
  "edge_rows_of s a b = filter (edge_row_matches a b) (edge_rows s)"

definition vertex_keys :: "('k, 'd) Store \<Rightarrow> ('k, 'd) driver_value option list" where
  "vertex_keys s = map (\<lambda>r. r ''hash'') (vertex_rows s)"

definition edge_keys ::
  "('k, 'd) Store \<Rightarrow> (('k, 'd) driver_value option \<times> ('k, 'd) driver_value option) list"
where
  "edge_keys s = map (\<lambda>r. (r ''source_hash'', r ''target_hash'')) (edge_rows s)"

text \<open>The row an UPDATE of \<open>UpdateEdge\<close> leaves where it found \<open>r\<close>.\<close>

definition updated_edge_row ::
  "int \<Rightarrow> bytes \<Rightarrow> ('k, 'd) driver_value option \<Rightarrow> ('k, 'd) row \<Rightarrow> ('k, 'd) row"
where
  "updated_edge_row w ab dt r =
     r(''weight'' := Some (SQLInt w), ''attributes'' := Some (SQLBytes ab), ''data'' := dt)"

text \<open>The five columns \<open>ListEdges\<close> selects, of a row.\<close>

definition edge_cells :: "('k, 'd) row \<Rightarrow> ('k, 'd) driver_value option list" where
  "edge_cells r =
     map r [''source_hash'', ''target_hash'', ''weight'', ''attributes'', ''data'']"

section \<open>Lemmas\<close>

subsection \<open>The database\<close>

lemma matches_Nil: "matches [] = (\<lambda>r. True)"
  by (rule ext) (simp add: matches_def)

lemma matches_hash: "matches [(''hash'', SQLKey k)] = (\<lambda>r. r ''hash'' = Some (SQLKey k))"
  by (rule ext) (simp add: matches_def)

lemma matches_pair:
  "matches [(''source_hash'', SQLKey a), (''target_hash'', SQLKey b)] = edge_row_matches a b"
  by (rule ext) (simp add: matches_def edge_row_matches_def)

lemma unknown_column_None_iff:
  "unknown_column tb cs = None \<longleftrightarrow> set cs \<subseteq> set (map fst (columns tb))"
  by (auto simp: unknown_column_def find_None_iff)



lemma scan_key_Inl: "scan_key i v = Inl e \<Longrightarrow> e = ScanError i"
  by (cases "(i, v)" rule: scan_key.cases) auto

subsection \<open>Tables that are ready\<close>

lemma edges_readyE:
  assumes "edges_ready s"
  obtains tb where "tables (db s) (EdgesTable (config s)) = Some tb"
    and "unknown_column tb [''source_hash'', ''target_hash'', ''weight'', ''attributes'', ''data''] = None"
    and "edge_rows s = rows tb"
  using assms
  by (auto simp: edges_ready_def has_columns_def edges_table_def edge_rows_def split: option.splits)

lemma vertices_readyE:
  assumes "vertices_ready s"
  obtains tb where "tables (db s) (VerticesTable (config s)) = Some tb"
    and "unknown_column tb [''hash'', ''value'', ''weight'', ''attributes''] = None"
    and "vertex_rows s = rows tb"
  using assms
  by (auto simp: vertices_ready_def has_columns_def vertices_table_def vertex_rows_def split: option.splits)

lemma Edge_query:
  assumes "edges_ready s"
  shows "QueryRow (Select (Columns [''weight'', ''attributes'', ''data''])
                       (EdgesTable (config s))
                       [(''source_hash'', SQLKey a), (''target_hash'', SQLKey b)]) (db s) =
         (case edge_rows_of s a b of
            [] \<Rightarrow> Inl ErrNoRows
          | r # rs \<Rightarrow> Inr [r ''weight'', r ''attributes'', r ''data''])"
proof -
  from assms obtain tb where tb: "tables (db s) (EdgesTable (config s)) = Some tb"
    and cols: "unknown_column tb [''source_hash'', ''target_hash'', ''weight'', ''attributes'', ''data''] = None"
    and rs: "edge_rows s = rows tb"
    by (rule edges_readyE)
  from cols have "unknown_column tb ([''weight'', ''attributes'', ''data''] @ [''source_hash'', ''target_hash'']) = None"
    by (auto simp: unknown_column_None_iff)
  then show ?thesis
    using tb rs
    by (cases "edge_rows_of s a b")
       (simp_all add: QueryRow_def selection_columns_def edge_rows_of_def matches_pair)
qed

lemma Vertex_query:
  assumes "vertices_ready s"
  shows "QueryRow (Select (Columns [''value'', ''weight'', ''attributes''])
                       (VerticesTable (config s)) [(''hash'', SQLKey k)]) (db s) =
         (case vertex_rows_of s k of
            [] \<Rightarrow> Inl ErrNoRows
          | r # rs \<Rightarrow> Inr [r ''value'', r ''weight'', r ''attributes''])"
proof -
  from assms obtain tb where tb: "tables (db s) (VerticesTable (config s)) = Some tb"
    and cols: "unknown_column tb [''hash'', ''value'', ''weight'', ''attributes''] = None"
    and rs: "vertex_rows s = rows tb"
    by (rule vertices_readyE)
  from cols have "unknown_column tb ([''value'', ''weight'', ''attributes''] @ [''hash'']) = None"
    by (auto simp: unknown_column_None_iff)
  then show ?thesis
    using tb rs
    by (cases "vertex_rows_of s k")
       (simp_all add: QueryRow_def selection_columns_def vertex_rows_of_def matches_hash)
qed

lemma EdgeCount_ready:
  assumes "edges_ready s"
  shows "EdgeCount s = (int (length (filter (\<lambda>r. r ''source_hash'' \<noteq> None) (edge_rows s))), None)"
proof -
  from assms obtain tb where tb: "tables (db s) (EdgesTable (config s)) = Some tb"
    and cols: "unknown_column tb [''source_hash'', ''target_hash'', ''weight'', ''attributes'', ''data''] = None"
    and rs: "edge_rows s = rows tb"
    by (rule edges_readyE)
  from cols have "unknown_column tb [''source_hash''] = None"
    by (auto simp: unknown_column_None_iff)
  then show ?thesis
    using tb rs
    by (simp add: EdgeCount_def scan_count_def QueryRow_def selection_columns_def matches_Nil)
qed

lemma VertexCount_ready:
  assumes "vertices_ready s"
  shows "VertexCount s = (int (length (filter (\<lambda>r. r ''hash'' \<noteq> None) (vertex_rows s))), None)"
proof -
  from assms obtain tb where tb: "tables (db s) (VerticesTable (config s)) = Some tb"
    and cols: "unknown_column tb [''hash'', ''value'', ''weight'', ''attributes''] = None"
    and rs: "vertex_rows s = rows tb"
    by (rule vertices_readyE)
  from cols have "unknown_column tb [''hash''] = None"
    by (auto simp: unknown_column_None_iff)
  then show ?thesis
    using tb rs
    by (simp add: VertexCount_def scan_count_def QueryRow_def selection_columns_def matches_Nil)
qed

subsection \<open>What each call does to the tables\<close>

lemma config_AddVertex: "config (fst (AddVertex j s k v p)) = config s"
  by (simp add: AddVertex_def split: sum.split prod.split)

lemma config_RemoveVertex: "config (fst (RemoveVertex s k)) = config s"
  by (simp add: RemoveVertex_def split: prod.split)

lemma config_AddEdge: "config (fst (AddEdge j s a b e)) = config s"
  by (simp add: AddEdge_def split: sum.split prod.split)

lemma config_RemoveEdge: "config (fst (RemoveEdge s a b)) = config s"
  by (simp add: RemoveEdge_def split: prod.split)

lemma config_UpdateEdge: "config (fst (UpdateEdge j s a b e)) = config s"
  by (simp add: UpdateEdge_def split: sum.split prod.split)

lemma dialect_AddEdge: "dialect (db (fst (AddEdge j s a b e))) = dialect (db s)"
  by (simp add: AddEdge_def split: sum.split option.split)

lemma frame_AddVertex:
  "n \<noteq> VerticesTable (config s) \<Longrightarrow> tables (db (fst (AddVertex j s k v p))) n = tables (db s) n"
  by (simp add: AddVertex_def split: sum.split option.split)

lemma frame_RemoveVertex:
  "n \<noteq> VerticesTable (config s) \<Longrightarrow> tables (db (fst (RemoveVertex s k))) n = tables (db s) n"
  by (simp add: RemoveVertex_def split: option.split)

lemma frame_AddEdge:
  "n \<noteq> EdgesTable (config s) \<Longrightarrow> tables (db (fst (AddEdge j s a b e))) n = tables (db s) n"
  by (simp add: AddEdge_def split: sum.split option.split)

lemma frame_RemoveEdge:
  "n \<noteq> EdgesTable (config s) \<Longrightarrow> tables (db (fst (RemoveEdge s a b))) n = tables (db s) n"
  by (simp add: RemoveEdge_def split: option.split)

lemma frame_UpdateEdge:
  "n \<noteq> EdgesTable (config s) \<Longrightarrow> tables (db (fst (UpdateEdge j s a b e))) n = tables (db s) n"
  by (simp add: UpdateEdge_def split: sum.split option.split)

lemma unknown_column_update:
  "unknown_column (tb\<lparr>rows := rs\<rparr>) cs = unknown_column tb cs"
  "unknown_column (tb\<lparr>serial := n\<rparr>) cs = unknown_column tb cs"
  by (simp_all add: unknown_column_def)

lemma AddEdge_ready:
  assumes "edges_ready s" and "MarshalAttributes j (Attributes (Properties e)) = Inr ab"
    and "data_argument (dialect (db s)) 5 (Data (Properties e)) = Inr dt"
  shows "snd (AddEdge j s a b e) = None"
    and "\<exists>r. edge_rows (fst (AddEdge j s a b e)) = edge_rows s @ [r] \<and>
           r ''source_hash'' = Some (SQLKey a) \<and> r ''target_hash'' = Some (SQLKey b) \<and>
           r ''weight'' = Some (SQLInt (Weight (Properties e))) \<and>
           r ''attributes'' = Some (SQLBytes ab) \<and> r ''data'' = dt"
proof -
  from assms(1) obtain tb where tb: "tables (db s) (EdgesTable (config s)) = Some tb"
    and cols: "unknown_column tb [''source_hash'', ''target_hash'', ''weight'', ''attributes'', ''data''] = None"
    and rs: "edge_rows s = rows tb"
    by (rule edges_readyE)
  show "snd (AddEdge j s a b e) = None"
    using tb cols assms(2,3) by (simp add: AddEdge_def)
  show "\<exists>r. edge_rows (fst (AddEdge j s a b e)) = edge_rows s @ [r] \<and>
           r ''source_hash'' = Some (SQLKey a) \<and> r ''target_hash'' = Some (SQLKey b) \<and>
           r ''weight'' = Some (SQLInt (Weight (Properties e))) \<and>
           r ''attributes'' = Some (SQLBytes ab) \<and> r ''data'' = dt"
    using tb cols rs assms(2,3)
    by (simp add: AddEdge_def edge_rows_def edges_table_def inserted_row_def)
qed

lemma edges_ready_AddEdge:
  assumes "edges_ready s"
  shows "edges_ready (fst (AddEdge j s a b e))"
proof -
  from assms obtain tb where tb: "tables (db s) (EdgesTable (config s)) = Some tb"
    and cols: "unknown_column tb [''source_hash'', ''target_hash'', ''weight'', ''attributes'', ''data''] = None"
    by (rule edges_readyE)
  then show ?thesis
    by (simp add: AddEdge_def edges_ready_def has_columns_def edges_table_def
        unknown_column_update split: sum.split)
qed

lemma RemoveEdge_ready:
  assumes "edges_ready s"
  shows "snd (RemoveEdge s a b) = None"
    and "edge_rows (fst (RemoveEdge s a b)) = filter (\<lambda>r. \<not> edge_row_matches a b r) (edge_rows s)"
    and "edges_ready (fst (RemoveEdge s a b))"
proof -
  from assms(1) obtain tb where tb: "tables (db s) (EdgesTable (config s)) = Some tb"
    and cols: "unknown_column tb [''source_hash'', ''target_hash'', ''weight'', ''attributes'', ''data''] = None"
    and rs: "edge_rows s = rows tb"
    by (rule edges_readyE)
  from cols have c2: "unknown_column tb [''source_hash'', ''target_hash''] = None"
    by (auto simp: unknown_column_None_iff)
  show "snd (RemoveEdge s a b) = None"
    using tb c2 by (simp add: RemoveEdge_def)
  show "edge_rows (fst (RemoveEdge s a b)) = filter (\<lambda>r. \<not> edge_row_matches a b r) (edge_rows s)"
    using tb c2 rs
    by (simp add: RemoveEdge_def edge_rows_def edges_table_def matches_pair)
  show "edges_ready (fst (RemoveEdge s a b))"
    using tb c2 cols
    by (simp add: RemoveEdge_def edges_ready_def has_columns_def edges_table_def
        unknown_column_update)
qed

lemma UpdateEdge_ready:
  assumes "edges_ready s" and "MarshalAttributes j (Attributes (Properties e)) = Inr ab"
    and "data_argument (dialect (db s)) 3 (Data (Properties e)) = Inr dt"
  shows "snd (UpdateEdge j s a b e) = None"
    and "edge_rows (fst (UpdateEdge j s a b e)) =
           map (\<lambda>r. if edge_row_matches a b r
                    then updated_edge_row (Weight (Properties e)) ab dt r else r)
               (edge_rows s)"
proof -
  from assms(1) obtain tb where tb: "tables (db s) (EdgesTable (config s)) = Some tb"
    and cols: "unknown_column tb [''source_hash'', ''target_hash'', ''weight'', ''attributes'', ''data''] = None"
    and rs: "edge_rows s = rows tb"
    by (rule edges_readyE)
  from cols have c2: "unknown_column tb [''weight'', ''attributes'', ''data'', ''source_hash'', ''target_hash''] = None"
    by (auto simp: unknown_column_None_iff)
  show "snd (UpdateEdge j s a b e) = None"
    using tb c2 assms(2,3) by (simp add: UpdateEdge_def)
  show "edge_rows (fst (UpdateEdge j s a b e)) =
           map (\<lambda>r. if edge_row_matches a b r
                    then updated_edge_row (Weight (Properties e)) ab dt r else r)
               (edge_rows s)"
    using tb c2 rs assms(2,3)
    by (simp add: UpdateEdge_def edge_rows_def edges_table_def matches_pair
        updated_edge_row_def assign_def)
qed

lemma edges_ready_UpdateEdge:
  assumes "edges_ready s"
  shows "edges_ready (fst (UpdateEdge j s a b e))"
proof -
  from assms obtain tb where tb: "tables (db s) (EdgesTable (config s)) = Some tb"
    and cols: "unknown_column tb [''source_hash'', ''target_hash'', ''weight'', ''attributes'', ''data''] = None"
    by (rule edges_readyE)
  from cols have c2: "unknown_column tb [''weight'', ''attributes'', ''data'', ''source_hash'', ''target_hash''] = None"
    by (auto simp: unknown_column_None_iff)
  from tb cols c2 show ?thesis
    by (simp add: UpdateEdge_def edges_ready_def has_columns_def edges_table_def
        unknown_column_update split: sum.split)
qed

lemma AddVertex_ready:
  assumes "vertices_ready s" and "MarshalValue j v = Inr vb"
    and "MarshalAttributes j (Attributes p) = Inr ab"
  shows "snd (AddVertex j s k v p) = None"
    and "\<exists>r. vertex_rows (fst (AddVertex j s k v p)) = vertex_rows s @ [r] \<and>
           r ''hash'' = Some (SQLKey k) \<and> r ''value'' = Some (SQLBytes vb) \<and>
           r ''weight'' = Some (SQLInt (Weight p)) \<and> r ''attributes'' = Some (SQLBytes ab)"
proof -
  from assms(1) obtain tb where tb: "tables (db s) (VerticesTable (config s)) = Some tb"
    and cols: "unknown_column tb [''hash'', ''value'', ''weight'', ''attributes''] = None"
    and rs: "vertex_rows s = rows tb"
    by (rule vertices_readyE)
  show "snd (AddVertex j s k v p) = None"
    using tb cols assms(2,3) by (simp add: AddVertex_def)
  show "\<exists>r. vertex_rows (fst (AddVertex j s k v p)) = vertex_rows s @ [r] \<and>
           r ''hash'' = Some (SQLKey k) \<and> r ''value'' = Some (SQLBytes vb) \<and>
           r ''weight'' = Some (SQLInt (Weight p)) \<and> r ''attributes'' = Some (SQLBytes ab)"
    using tb cols rs assms(2,3)
    by (simp add: AddVertex_def vertex_rows_def vertices_table_def inserted_row_def)
qed

lemma vertices_ready_AddVertex:
  assumes "vertices_ready s"
  shows "vertices_ready (fst (AddVertex j s k v p))"
proof -
  from assms obtain tb where tb: "tables (db s) (VerticesTable (config s)) = Some tb"
    and cols: "unknown_column tb [''hash'', ''value'', ''weight'', ''attributes''] = None"
    by (rule vertices_readyE)
  then show ?thesis
    by (simp add: AddVertex_def vertices_ready_def has_columns_def vertices_table_def
        unknown_column_update split: sum.split)
qed

lemma RemoveVertex_ready:
  assumes "vertices_ready s"
  shows "snd (RemoveVertex s k) = None"
    and "vertex_rows (fst (RemoveVertex s k)) = filter (\<lambda>r. r ''hash'' \<noteq> Some (SQLKey k)) (vertex_rows s)"
    and "vertices_ready (fst (RemoveVertex s k))"
proof -
  from assms(1) obtain tb where tb: "tables (db s) (VerticesTable (config s)) = Some tb"
    and cols: "unknown_column tb [''hash'', ''value'', ''weight'', ''attributes''] = None"
    and rs: "vertex_rows s = rows tb"
    by (rule vertices_readyE)
  from cols have c2: "unknown_column tb [''hash''] = None"
    by (auto simp: unknown_column_None_iff)
  show "snd (RemoveVertex s k) = None"
    using tb c2 by (simp add: RemoveVertex_def)
  show "vertex_rows (fst (RemoveVertex s k)) = filter (\<lambda>r. r ''hash'' \<noteq> Some (SQLKey k)) (vertex_rows s)"
    using tb c2 rs
    by (simp add: RemoveVertex_def vertex_rows_def vertices_table_def matches_hash)
  show "vertices_ready (fst (RemoveVertex s k))"
    using tb c2 cols
    by (simp add: RemoveVertex_def vertices_ready_def has_columns_def vertices_table_def
        unknown_column_update)
qed

text \<open>A call on one table leaves the other as it is, when the two names differ.\<close>

lemma edges_table_vertex_call:
  assumes "VerticesTable (config s) \<noteq> EdgesTable (config s)"
  shows "edges_table (fst (AddVertex j s k v p)) = edges_table s"
    and "edges_table (fst (RemoveVertex s k)) = edges_table s"
  using assms
  by (simp_all add: edges_table_def config_AddVertex config_RemoveVertex
      frame_AddVertex frame_RemoveVertex)

lemma vertices_table_edge_call:
  assumes "VerticesTable (config s) \<noteq> EdgesTable (config s)"
  shows "vertices_table (fst (AddEdge j s a b e)) = vertices_table s"
    and "vertices_table (fst (RemoveEdge s a b)) = vertices_table s"
    and "vertices_table (fst (UpdateEdge j s a b e)) = vertices_table s"
  using assms
  by (simp_all add: vertices_table_def config_AddEdge config_RemoveEdge config_UpdateEdge
      frame_AddEdge frame_RemoveEdge frame_UpdateEdge)

lemma edges_view_vertex_call:
  assumes "VerticesTable (config s) \<noteq> EdgesTable (config s)"
  shows "edges_ready (fst (AddVertex j s k v p)) = edges_ready s"
    and "edges_ready (fst (RemoveVertex s k)) = edges_ready s"
    and "edge_rows (fst (AddVertex j s k v p)) = edge_rows s"
    and "edge_rows (fst (RemoveVertex s k)) = edge_rows s"
  using assms by (simp_all add: edges_ready_def edge_rows_def edges_table_vertex_call)

lemma vertices_view_edge_call:
  assumes "VerticesTable (config s) \<noteq> EdgesTable (config s)"
  shows "vertices_ready (fst (AddEdge j s a b e)) = vertices_ready s"
    and "vertices_ready (fst (RemoveEdge s a b)) = vertices_ready s"
    and "vertices_ready (fst (UpdateEdge j s a b e)) = vertices_ready s"
    and "vertex_rows (fst (AddEdge j s a b e)) = vertex_rows s"
    and "vertex_rows (fst (RemoveEdge s a b)) = vertex_rows s"
    and "vertex_rows (fst (UpdateEdge j s a b e)) = vertex_rows s"
  using assms by (simp_all add: vertices_ready_def vertex_rows_def vertices_table_edge_call)

lemma config_apply_call: "config (fst (apply_call j c s)) = config s"
  by (cases c)
     (simp_all add: config_AddVertex config_RemoveVertex config_AddEdge config_RemoveEdge
        config_UpdateEdge)

lemma ready_apply_call:
  assumes "ready s"
  shows "ready (fst (apply_call j c s))"
proof -
  from assms have v: "vertices_ready s" and e: "edges_ready s"
    and ne: "VerticesTable (config s) \<noteq> EdgesTable (config s)"
    by (simp_all add: ready_def)
  have "vertices_ready (fst (apply_call j c s))"
    using v ne
    by (cases c)
       (simp_all add: vertices_ready_AddVertex RemoveVertex_ready(3) vertices_view_edge_call)
  moreover have "edges_ready (fst (apply_call j c s))"
    using e ne
    by (cases c)
       (simp_all add: edges_ready_AddEdge RemoveEdge_ready(3) edges_ready_UpdateEdge
          edges_view_vertex_call)
  ultimately show ?thesis
    using ne by (simp add: ready_def config_apply_call)
qed

lemma ready_run: "ready s \<Longrightarrow> ready (run j cs s)"
  by (induction cs arbitrary: s) (simp_all add: ready_apply_call)

lemma config_run: "config (run j cs s) = config s"
  by (induction cs arbitrary: s) (simp_all add: config_apply_call)

text \<open>After a set-up that succeeded both tables are there and empty.\<close>

lemma SetupTables_ready:
  assumes "SetupTables s0 = (s, None)"
  shows "ready s" and "vertex_rows s = []" and "edge_rows s = []"
proof -
  from assms have V: "tables (db s0) (VerticesTable (config s0)) = None"
    by (auto simp: SetupTables_def createVerticesTableSQL_def split: option.splits prod.splits)
  from assms V have ne: "VerticesTable (config s0) \<noteq> EdgesTable (config s0)"
    by (auto simp: SetupTables_def createVerticesTableSQL_def createEdgesTableSQL_def
        split: option.splits prod.splits if_splits)
  from assms V ne have E: "tables (db s0) (EdgesTable (config s0)) = None"
    by (auto simp: SetupTables_def createVerticesTableSQL_def createEdgesTableSQL_def
        split: option.splits prod.splits if_splits)
  from assms V ne E have s: "s = s0\<lparr>db := (db s0)\<lparr>tables := (tables (db s0))
      (VerticesTable (config s0) \<mapsto> \<lparr>columns = [(''id'', AutoIncrementKey ''BIGINT UNSIGNED''),
        (''hash'', SQLType (VertexHashType (config s0))),
        (''value'', SQLType (VertexValueType (config s0))),
        (''weight'', SQLType ''INT''),
        (''attributes'', SQLType ''JSON'')], rows = [], serial = 1\<rparr>,
       EdgesTable (config s0) \<mapsto> \<lparr>columns = [(''id'', AutoIncrementKey ''BIGINT UNSIGNED''),
        (''source_hash'', SQLType (VertexHashType (config s0))),
        (''target_hash'', SQLType (VertexHashType (config s0))),
        (''weight'', SQLType ''INT''),
        (''attributes'', SQLType ''JSON''),
        (''data'', SQLType ''BLOB'')], rows = [], serial = 1\<rparr>)\<rparr>\<rparr>"
    by (simp add: SetupTables_def createVerticesTableSQL_def createEdgesTableSQL_def)
  show "ready s"
    using ne by (simp add: s ready_def vertices_ready_def edges_ready_def has_columns_def
        vertices_table_def edges_table_def unknown_column_def)
  show "vertex_rows s = []"
    using ne by (simp add: s vertex_rows_def vertices_table_def)
  show "edge_rows s = []"
    using ne by (simp add: s edge_rows_def edges_table_def)
qed

subsection \<open>The hashes in the rows, call by call\<close>

text \<open>An \<open>AddEdge\<close> that succeeds has encoded the attributes and converted the data.\<close>

lemma AddEdge_None:
  assumes "snd (AddEdge j s a b e) = None"
  obtains ab dt where "MarshalAttributes j (Attributes (Properties e)) = Inr ab"
    and "data_argument (dialect (db s)) 5 (Data (Properties e)) = Inr dt"
  using assms by (auto simp: AddEdge_def split: sum.splits)

lemma data_argument_convert:
  "convert_argument i d = Inr v \<Longrightarrow> data_argument dl i d = Inr (stored_in_blob dl v)"
  by (simp add: data_argument_def)

lemma AddEdge_ok:
  assumes "edges_ready s" and "MarshalAttributes j (Attributes (Properties e)) = Inr ab"
    and "convert_argument 5 (Data (Properties e)) = Inr v"
  shows "snd (AddEdge j s a b e) = None"
  using assms(1,2) data_argument_convert [OF assms(3)] by (rule AddEdge_ready(1))

lemma AddVertex_Inl:
  "MarshalValue j v = Inl m \<or>
   (\<exists>vb. MarshalValue j v = Inr vb) \<and> MarshalAttributes j (Attributes p) = Inl m \<Longrightarrow>
   AddVertex j s k v p = (s, Some (JSONError m))"
  by (auto simp: AddVertex_def)

lemma edge_keys_AddEdge:
  assumes "edges_ready s" and "snd (AddEdge j s a b e) = None"
  shows "edge_keys (fst (AddEdge j s a b e)) = edge_keys s @ [(Some (SQLKey a), Some (SQLKey b))]"
proof -
  from assms(2) obtain ab dt where "MarshalAttributes j (Attributes (Properties e)) = Inr ab"
    and "data_argument (dialect (db s)) 5 (Data (Properties e)) = Inr dt"
    by (rule AddEdge_None)
  from AddEdge_ready(2) [OF assms(1) this, of a b] show ?thesis
    by (auto simp: edge_keys_def)
qed

lemma edge_keys_AddEdge_error:
  assumes "edges_ready s" and "snd (AddEdge j s a b e) = Some err"
  shows "edge_keys (fst (AddEdge j s a b e)) = edge_keys s"
proof -
  have "fst (AddEdge j s a b e) = s"
  proof (cases "MarshalAttributes j (Attributes (Properties e))")
    case (Inl m)
    then show ?thesis by (simp add: AddEdge_def)
  next
    case (Inr ab)
    note m = this
    show ?thesis
    proof (cases "data_argument (dialect (db s)) 5 (Data (Properties e))")
      case (Inl err')
      with m show ?thesis by (simp add: AddEdge_def)
    next
      case (Inr dt)
      from AddEdge_ready(1) [OF assms(1) m Inr, of a b] assms(2) show ?thesis by simp
    qed
  qed
  then show ?thesis by simp
qed

lemma edge_keys_RemoveEdge:
  assumes "edges_ready s"
  shows "edge_keys (fst (RemoveEdge s a b)) =
         filter (\<lambda>p. p \<noteq> (Some (SQLKey a), Some (SQLKey b))) (edge_keys s)"
  by (simp add: edge_keys_def RemoveEdge_ready(2) [OF assms] filter_map comp_def
      edge_row_matches_def)

lemma edge_keys_UpdateEdge:
  assumes "edges_ready s"
  shows "edge_keys (fst (UpdateEdge j s a b e)) = edge_keys s"
proof (cases "MarshalAttributes j (Attributes (Properties e))")
  case (Inl m)
  then show ?thesis by (simp add: UpdateEdge_def)
next
  case (Inr ab)
  note m = this
  show ?thesis
  proof (cases "data_argument (dialect (db s)) 3 (Data (Properties e))")
    case (Inl err)
    with m show ?thesis by (simp add: UpdateEdge_def)
  next
    case (Inr dt)
    show ?thesis
      by (simp add: edge_keys_def UpdateEdge_ready(2) [OF assms m Inr] comp_def
          updated_edge_row_def cong: if_cong)
  qed
qed

lemma vertex_keys_AddVertex:
  assumes "vertices_ready s" and "MarshalValue j v = Inr vb"
    and "MarshalAttributes j (Attributes p) = Inr ab"
  shows "vertex_keys (fst (AddVertex j s k v p)) = vertex_keys s @ [Some (SQLKey k)]"
  using AddVertex_ready(2) [OF assms, of k] by (auto simp: vertex_keys_def)

lemma vertex_keys_RemoveVertex:
  assumes "vertices_ready s"
  shows "vertex_keys (fst (RemoveVertex s k)) = filter (\<lambda>h. h \<noteq> Some (SQLKey k)) (vertex_keys s)"
  by (simp add: vertex_keys_def RemoveVertex_ready(2) [OF assms] filter_map comp_def)

lemma EdgeCount_keys:
  assumes "edges_ready s"
  shows "EdgeCount s = (int (length (filter (\<lambda>p. fst p \<noteq> None) (edge_keys s))), None)"
  by (simp add: EdgeCount_ready [OF assms] edge_keys_def filter_map comp_def)

lemma VertexCount_keys:
  assumes "vertices_ready s"
  shows "VertexCount s = (int (length (filter (\<lambda>h. h \<noteq> None) (vertex_keys s))), None)"
  by (simp add: VertexCount_ready [OF assms] vertex_keys_def filter_map comp_def)


lemma vertex_rows_of_Nil_iff:
  "vertex_rows_of s k = [] \<longleftrightarrow> Some (SQLKey k) \<notin> set (vertex_keys s)"
  by (auto simp: vertex_rows_of_def vertex_keys_def filter_empty_conv image_iff)


lemma edge_keys_vertex_call:
  assumes "VerticesTable (config s) \<noteq> EdgesTable (config s)"
  shows "edge_keys (fst (AddVertex j s k v p)) = edge_keys s"
    and "edge_keys (fst (RemoveVertex s k)) = edge_keys s"
  using assms by (simp_all add: edge_keys_def edges_view_vertex_call)

lemma vertex_keys_edge_call:
  assumes "VerticesTable (config s) \<noteq> EdgesTable (config s)"
  shows "vertex_keys (fst (AddEdge j s a b e)) = vertex_keys s"
    and "vertex_keys (fst (RemoveEdge s a b)) = vertex_keys s"
    and "vertex_keys (fst (UpdateEdge j s a b e)) = vertex_keys s"
  using assms by (simp_all add: vertex_keys_def vertices_view_edge_call)

lemma ready_calls:
  assumes "ready s"
  shows "ready (fst (AddVertex j s k v p))"
    and "ready (fst (RemoveVertex s k))"
    and "ready (fst (AddEdge j s a b e))"
    and "ready (fst (RemoveEdge s a b))"
    and "ready (fst (UpdateEdge j s a b e))"
  using ready_apply_call [OF assms, of j "CallAddVertex k v p"]
    ready_apply_call [OF assms, of j "CallRemoveVertex k"]
    ready_apply_call [OF assms, of j "CallAddEdge a b e"]
    ready_apply_call [OF assms, of j "CallRemoveEdge a b"]
    ready_apply_call [OF assms, of j "CallUpdateEdge a b e"]
  by simp_all

lemma ready_edge_keys:
  assumes "ready s"
  shows "edge_keys (fst (AddVertex j s k v p)) = edge_keys s"
    and "edge_keys (fst (RemoveVertex s k)) = edge_keys s"
    and "snd (AddEdge j s a b e) = None \<Longrightarrow>
         edge_keys (fst (AddEdge j s a b e)) = edge_keys s @ [(Some (SQLKey a), Some (SQLKey b))]"
    and "edge_keys (fst (RemoveEdge s a b)) =
         filter (\<lambda>p. p \<noteq> (Some (SQLKey a), Some (SQLKey b))) (edge_keys s)"
    and "edge_keys (fst (UpdateEdge j s a b e)) = edge_keys s"
  using assms
  by (simp_all add: ready_def edge_keys_vertex_call edge_keys_AddEdge edge_keys_RemoveEdge
      edge_keys_UpdateEdge)

lemma ready_vertex_keys:
  assumes "ready s"
  shows "MarshalValue j v = Inr vb \<Longrightarrow> MarshalAttributes j (Attributes p) = Inr ab \<Longrightarrow>
         vertex_keys (fst (AddVertex j s k v p)) = vertex_keys s @ [Some (SQLKey k)]"
    and "vertex_keys (fst (RemoveVertex s k)) =
         filter (\<lambda>h. h \<noteq> Some (SQLKey k)) (vertex_keys s)"
    and "vertex_keys (fst (AddEdge j s a b e)) = vertex_keys s"
    and "vertex_keys (fst (RemoveEdge s a b)) = vertex_keys s"
    and "vertex_keys (fst (UpdateEdge j s a b e)) = vertex_keys s"
  using assms
  by (simp_all add: ready_def vertex_keys_edge_call vertex_keys_AddVertex vertex_keys_RemoveVertex)

lemma call_log_Cons:
  "call_log j (c # cs) s = (c, snd (apply_call j c s)) # call_log j cs (fst (apply_call j c s))"
  by (simp add: call_log_def)

lemma call_log_Nil: "call_log j [] s = []"
  by (simp add: call_log_def)



text \<open>Every row the store writes has its source hash.\<close>

lemma source_hash_apply_call:
  assumes "ready s" and "None \<notin> fst ` set (edge_keys s)"
  shows "None \<notin> fst ` set (edge_keys (fst (apply_call j c s)))"
proof (cases c)
  case (CallAddEdge a b e)
  from assms(1) have er: "edges_ready s" by (simp add: ready_def)
  show ?thesis
  proof (cases "snd (AddEdge j s a b e)")
    case (Some err)
    then show ?thesis using CallAddEdge assms(2) by (simp add: edge_keys_AddEdge_error [OF er Some])
  next
    case None
    then show ?thesis
      using CallAddEdge assms(2) by (simp add: ready_edge_keys(3) [OF assms(1) None])
  qed
next
  case (CallRemoveEdge a b)
  then show ?thesis
    using assms(2) by (auto simp: ready_edge_keys(4) [OF assms(1)])
qed (use assms in \<open>simp_all add: ready_edge_keys\<close>)

lemma source_hash_run:
  assumes "ready s" and "None \<notin> fst ` set (edge_keys s)"
  shows "None \<notin> fst ` set (edge_keys (run j cs s))"
  using assms
proof (induction cs arbitrary: s)
  case Nil
  then show ?case by simp
next
  case (Cons c cs)
  have "None \<notin> fst ` set (edge_keys (run j cs (fst (apply_call j c s))))"
    using Cons.prems by (intro Cons.IH ready_apply_call source_hash_apply_call)
  then show ?case by simp
qed

lemma EdgeCount_run:
  assumes "ready s" and "None \<notin> fst ` set (edge_keys s)"
  shows "list_all (\<lambda>r. r ''source_hash'' \<noteq> None) (edge_rows (run j cs s))"
    and "EdgeCount (run j cs s) = (int (length (edge_rows (run j cs s))), None)"
proof -
  let ?s = "run j cs s"
  have all: "None \<notin> fst ` set (edge_keys ?s)"
    using assms by (rule source_hash_run)
  have rows: "r ''source_hash'' \<noteq> None" if "r \<in> set (edge_rows ?s)" for r
  proof
    assume none: "r ''source_hash'' = None"
    from that have "(\<lambda>r. (r ''source_hash'', r ''target_hash'')) r \<in> set (edge_keys ?s)"
      unfolding edge_keys_def set_map by (rule imageI)
    then have "fst ((\<lambda>r. (r ''source_hash'', r ''target_hash'')) r) \<in> fst ` set (edge_keys ?s)"
      by (rule imageI)
    with none all show False by simp
  qed
  then show "list_all (\<lambda>r. r ''source_hash'' \<noteq> None) (edge_rows ?s)"
    unfolding list_all_iff by blast
  from rows have flt: "filter (\<lambda>r. r ''source_hash'' \<noteq> None) (edge_rows ?s) = edge_rows ?s"
    unfolding filter_id_conv by blast
  have "edges_ready ?s"
    using ready_run [OF assms(1), of j cs] by (simp add: ready_def)
  then have "EdgeCount ?s =
      (int (length (filter (\<lambda>r. r ''source_hash'' \<noteq> None) (edge_rows ?s))), None)"
    by (rule EdgeCount_ready)
  then show "EdgeCount ?s = (int (length (edge_rows ?s)), None)"
    by (simp only: flt)
qed

lemma filter_neq_absent: "k \<notin> set xs \<Longrightarrow> filter (\<lambda>x. x \<noteq> k) xs = xs"
  by (induction xs) auto

lemma length_filter_neq:
  "distinct xs \<Longrightarrow> k \<in> set xs \<Longrightarrow> int (length (filter (\<lambda>x. x \<noteq> k) xs)) = int (length xs) - 1"
  by (induction xs) (auto simp: filter_neq_absent)

lemma filter_keys_map:
  "filter (\<lambda>h. h \<noteq> Some (SQLKey k)) (map (\<lambda>x. Some (SQLKey x)) xs) =
   map (\<lambda>x. Some (SQLKey x)) (filter (\<lambda>x. x \<noteq> k) xs)"
  by (induction xs) simp_all

lemma VertexCount_present:
  assumes "ready s" and "vertex_keys s = map (\<lambda>x. Some (SQLKey x)) present"
  shows "VertexCount s = (int (length present), None)"
proof -
  from assms(1) have "vertices_ready s" by (simp add: ready_def)
  from VertexCount_keys [OF this] show ?thesis
    by (simp add: assms(2) filter_id_conv [THEN iffD2])
qed

lemma VertexCount_run:
  assumes "ready s" and "vertex_keys s = map (\<lambda>x. Some (SQLKey x)) present"
    and "distinct present" and "adds_new_removes_stored present (call_log j cs s)"
  shows "VertexCount (run j cs s) =
         (int (length present) + int (vertices_added (call_log j cs s))
            - int (vertices_removed (call_log j cs s)), None)"
  using assms
proof (induction cs arbitrary: s present)
  case Nil
  then show ?case by (simp add: call_log_Nil VertexCount_present)
next
  case (Cons c cs)
  note rdy = \<open>ready s\<close>
  then have v: "vertices_ready s" by (simp add: ready_def)
  have rdy': "ready (fst (apply_call j c s))" using rdy by (rule ready_apply_call)
  note IH = Cons.IH [OF rdy']
  note disc = Cons.prems(4) [unfolded call_log_Cons]
  show ?case
  proof (cases c)
    case (CallAddVertex k val p)
    show ?thesis
    proof (cases "\<exists>vb ab. MarshalValue j val = Inr vb \<and> MarshalAttributes j (Attributes p) = Inr ab")
      case True
      then obtain vb ab where m: "MarshalValue j val = Inr vb"
        "MarshalAttributes j (Attributes p) = Inr ab" by blast
      have ok: "snd (AddVertex j s k val p) = None"
        using v m by (rule AddVertex_ready(1))
      have keys: "vertex_keys (fst (AddVertex j s k val p)) =
          map (\<lambda>x. Some (SQLKey x)) (present @ [k])"
        by (simp add: ready_vertex_keys(1) [OF rdy m] Cons.prems(2))
      from disc ok CallAddVertex have new: "k \<notin> set present"
        and rest: "adds_new_removes_stored (present @ [k])
            (call_log j cs (fst (AddVertex j s k val p)))"
        by simp_all
      from new Cons.prems(3) have "distinct (present @ [k])" by simp
      from IH [of "present @ [k]"] keys this rest CallAddVertex ok show ?thesis
        by (simp add: call_log_Cons)
    next
      case False
      then obtain m where "MarshalValue j val = Inl m \<or>
          (\<exists>vb. MarshalValue j val = Inr vb) \<and> MarshalAttributes j (Attributes p) = Inl m"
        by (cases "MarshalValue j val"; cases "MarshalAttributes j (Attributes p)") auto
      then have same: "AddVertex j s k val p = (s, Some (JSONError m))"
        by (rule AddVertex_Inl)
      from IH [of present] Cons.prems(2,3) disc CallAddVertex same show ?thesis
        by (simp add: call_log_Cons)
    qed
  next
    case (CallRemoveVertex k)
    have ok: "snd (RemoveVertex s k) = None" using v by (rule RemoveVertex_ready(1))
    have keys: "vertex_keys (fst (RemoveVertex s k)) =
        map (\<lambda>x. Some (SQLKey x)) (filter (\<lambda>x. x \<noteq> k) present)"
      by (simp add: ready_vertex_keys(2) [OF rdy] Cons.prems(2) filter_keys_map)
    from disc ok CallRemoveVertex have old: "k \<in> set present"
      and rest: "adds_new_removes_stored (filter (\<lambda>x. x \<noteq> k) present)
          (call_log j cs (fst (RemoveVertex s k)))"
      by simp_all
    from Cons.prems(3) have "distinct (filter (\<lambda>x. x \<noteq> k) present)" by simp
    from IH [of "filter (\<lambda>x. x \<noteq> k) present"] keys this rest CallRemoveVertex ok
      length_filter_neq [OF Cons.prems(3) old]
    show ?thesis by (simp add: call_log_Cons)
  next
    case (CallAddEdge a b e)
    from IH [of present] Cons.prems(2,3) disc CallAddEdge show ?thesis
      by (cases "snd (AddEdge j s a b e)")
         (simp_all add: call_log_Cons ready_vertex_keys [OF rdy])
  next
    case (CallRemoveEdge a b)
    from IH [of present] Cons.prems(2,3) disc CallRemoveEdge show ?thesis
      by (cases "snd (RemoveEdge s a b)")
         (simp_all add: call_log_Cons ready_vertex_keys [OF rdy])
  next
    case (CallUpdateEdge a b e)
    from IH [of present] Cons.prems(2,3) disc CallUpdateEdge show ?thesis
      by (cases "snd (UpdateEdge j s a b e)")
         (simp_all add: call_log_Cons ready_vertex_keys [OF rdy])
  qed
qed



lemma Vertex_not_found:
  assumes "vertices_ready s" and "vertex_rows_of s k = []"
  shows "snd (snd (Vertex j s k)) = Some (Errorf ''failed to query vertex'' ErrNoRows)"
  using assms by (simp add: Vertex_def Vertex_query Let_def)

subsection \<open>The loop of ListEdges\<close>

lemma ListEdges_loop_fails:
  "r \<in> set rs \<Longrightarrow> scan_edge_row j r = Inl err \<Longrightarrow>
   fst (ListEdges_loop j rs acc) = [] \<and> snd (ListEdges_loop j rs acc) \<noteq> None"
  by (induction rs arbitrary: acc) (auto split: sum.split)

lemma ListEdges_loop_error:
  "snd (ListEdges_loop j rs acc) \<noteq> None \<Longrightarrow> fst (ListEdges_loop j rs acc) = []"
  by (induction rs arbitrary: acc) (auto split: sum.splits)

lemma ListEdges_loop_success:
  "snd (ListEdges_loop j rs acc) = None \<Longrightarrow>
   \<exists>es. fst (ListEdges_loop j rs acc) = acc @ es \<and>
        list_all2 (\<lambda>r e. scan_edge_row j r = Inr e) rs es"
proof (induction rs arbitrary: acc)
  case Nil
  then show ?case by simp
next
  case (Cons r rs)
  then obtain e where e: "scan_edge_row j r = Inr e"
    by (cases "scan_edge_row j r") auto
  with Cons.prems have "snd (ListEdges_loop j rs (acc @ [e])) = None" by simp
  from Cons.IH [OF this] obtain es where
    "fst (ListEdges_loop j rs (acc @ [e])) = (acc @ [e]) @ es"
    "list_all2 (\<lambda>r e. scan_edge_row j r = Inr e) rs es" by blast
  with e show ?case by (intro exI [of _ "e # es"]) simp
qed

lemma scan_key_Inr: "scan_key i v = Inr k \<Longrightarrow> v = Some (SQLKey k)"
  by (cases "(i, v)" rule: scan_key.cases) auto

lemma scan_int_Inr: "scan_int i v = Inr n \<Longrightarrow> v = Some (SQLInt n)"
  by (cases "(i, v)" rule: scan_int.cases) auto

lemma scan_edge_row_Inr:
  assumes "scan_edge_row j (edge_cells r) = Inr e"
  shows "r ''source_hash'' = Some (SQLKey (Source e)) \<and>
         r ''target_hash'' = Some (SQLKey (Target e)) \<and>
         r ''weight'' = Some (SQLInt (Weight (Properties e))) \<and>
         DriverValue (r ''data'') = Data (Properties e) \<and>
         (\<exists>ab. scan_bytes 3 (r ''attributes'') = Inr ab \<and>
               UnmarshalAttributes j ab Map.empty = (Attributes (Properties e), None))"
  using assms
  by (auto simp: scan_edge_row_def edge_cells_def
      dest!: scan_key_Inr scan_int_Inr split: sum.splits prod.splits option.splits)

lemma scan_edge_row_undecodable:
  assumes "scan_bytes 3 (r ''attributes'') = Inr ab"
    and "snd (UnmarshalAttributes j ab Map.empty) = Some m"
  shows "\<exists>err. scan_edge_row j (edge_cells r) = Inl err"
  using assms
  by (auto simp: scan_edge_row_def edge_cells_def split: sum.splits prod.splits option.splits)

lemma edge_cells_eq:
  "edge_cells = (\<lambda>r. [r ''source_hash'', r ''target_hash'', r ''weight'', r ''attributes'', r ''data''])"
  by (rule ext) (simp add: edge_cells_def)

lemma ListEdges_ready:
  assumes "edges_ready s"
  shows "ListEdges j s = ListEdges_loop j (map edge_cells (edge_rows s)) []"
proof -
  from assms obtain tb where tb: "tables (db s) (EdgesTable (config s)) = Some tb"
    and cols: "unknown_column tb [''source_hash'', ''target_hash'', ''weight'', ''attributes'', ''data''] = None"
    and rs: "edge_rows s = rows tb"
    by (rule edges_readyE)
  then show ?thesis
    by (simp add: ListEdges_def selection_columns_def matches_Nil edge_cells_eq)
qed

lemma ListEdges_not_ready:
  assumes "\<not> edges_ready s"
  shows "fst (ListEdges j s) = [] \<and> snd (ListEdges j s) \<noteq> None"
  using assms
  by (auto simp: ListEdges_def edges_ready_def has_columns_def edges_table_def
      selection_columns_def split: option.splits)

lemma store_db_same: "tables (db s) n = Some tb \<Longrightarrow>
  s\<lparr>db := (db s)\<lparr>tables := (tables (db s))(n \<mapsto> tb)\<rparr>\<rparr> = s"
  by (simp add: fun_upd_idem)

lemma edge_row_matches_updated:
  "edge_row_matches a b (updated_edge_row w ab dt r) = edge_row_matches a b r"
  by (simp add: edge_row_matches_def updated_edge_row_def)

lemma filter_matches_update:
  "filter (edge_row_matches a b)
     (map (\<lambda>r. if edge_row_matches a b r then updated_edge_row w ab dt r else r) rs) =
   map (updated_edge_row w ab dt) (filter (edge_row_matches a b) rs)"
  by (induction rs) (simp_all add: edge_row_matches_updated)

lemma map_update_no_match:
  "filter (edge_row_matches a b) rs = [] \<Longrightarrow>
   map (\<lambda>r. if edge_row_matches a b r then f r else r) rs = rs"
  by (induction rs) (simp_all split: if_splits)

subsection \<open>Evaluation on the store of the tests\<close>

lemma empty_neq_upd: "Map.empty \<noteq> m(k \<mapsto> v)"
  by (metis map_upd_nonempty)

lemmas store_eval =
  createStore_def SetupTables_def New_def memory_database_def DefaultConfig_def
  createVerticesTableSQL_def createEdgesTableSQL_def
  AddVertex_def RemoveVertex_def AddEdge_def RemoveEdge_def UpdateEdge_def
  convert_argument_def data_argument_def
  test_json_def json_of_table_def zeroVertexProperties_def zeroEdgeProperties_def
  unknown_column_def inserted_row_def matches_def assign_def empty_neq_upd

lemmas view_eval =
  vertices_ready_def edges_ready_def has_columns_def vertices_table_def edges_table_def
  vertex_rows_def edge_rows_def vertex_rows_of_def edge_rows_of_def edge_row_matches_def

lemma createStore_ok: "snd (createStore :: (int, string) Store \<times> error option) = None"
  by (simp add: store_eval)

lemma createStore_SetupTables:
  "SetupTables (New (memory_database SQLite) DefaultConfig) =
     (fst createStore :: (int, string) Store, None)"
  using createStore_ok by (simp add: createStore_def prod_eq_iff)

text \<open>
  The comment in \<open>EdgeCount\<close> (\<^verbatim>\<open>count(id)\<close> is wrong for sqlite): on the store of the
  tests no row gets an \<^verbatim>\<open>id\<close>, so counting by it gives 0 where the table has a row; on
  MariaDB the row is numbered, and counted.
\<close>

lemma count_id_SQLite:
  "QueryRow (Select (CountOf ''id'') ''edges'' [])
     (db (fst (AddEdge test_json (fst createStore :: (int, string) Store) 1 2
        \<lparr>Source = 1, Target = 2, Properties = zeroEdgeProperties\<rparr>))) =
   Inr [Some (SQLInt 0)]"
  by (simp add: QueryRow_def selection_columns_def store_eval)

lemma count_id_MariaDB:
  "QueryRow (Select (CountOf ''id'') ''edges'' [])
     (db (fst (AddEdge test_json
        (fst (SetupTables (New (memory_database MariaDB) DefaultConfig)) :: (int, string) Store) 1 2
        \<lparr>Source = 1, Target = 2, Properties = zeroEdgeProperties\<rparr>))) =
   Inr [Some (SQLInt 1)]"
  by (simp add: QueryRow_def selection_columns_def store_eval)

text \<open>
  The data of \<^verbatim>\<open>TestUpdateEdge\<close>, the string \<^verbatim>\<open>happy\<close>: the store of the tests returns
  it as the string, a store on MariaDB as a byte slice; and MariaDB returns the \<^verbatim>\<open>int\<close>
  42 as the bytes of its decimal text.
\<close>

lemma data_SQLite:
  "Data (Properties (fst (Edge test_json
     (fst (AddEdge test_json (fst createStore :: (int, string) Store) 1 2
        \<lparr>Source = 1, Target = 2, Properties =
           \<lparr>Attributes = Map.empty, Weight = 0,
            Data = DriverValue (Some (SQLString ''happy''))\<rparr>\<rparr>)) 1 2))) =
   DriverValue (Some (SQLString ''happy''))"
  by (simp add: Edge_def QueryRow_def selection_columns_def Let_def store_eval)

lemma data_MariaDB:
  "Data (Properties (fst (Edge test_json
     (fst (AddEdge test_json
        (fst (SetupTables (New (memory_database MariaDB) DefaultConfig)) :: (int, string) Store) 1 2
        \<lparr>Source = 1, Target = 2, Properties =
           \<lparr>Attributes = Map.empty, Weight = 0,
            Data = DriverValue (Some (SQLString ''happy''))\<rparr>\<rparr>)) 1 2))) =
   DriverValue (Some (SQLBytes ''happy'')) \<and>
   Data (Properties (fst (Edge test_json
     (fst (AddEdge test_json
        (fst (SetupTables (New (memory_database MariaDB) DefaultConfig)) :: (int, string) Store) 1 2
        \<lparr>Source = 1, Target = 2, Properties =
           \<lparr>Attributes = Map.empty, Weight = 0, Data = GoInt 42\<rparr>\<rparr>)) 1 2))) =
   DriverValue (Some (SQLBytes ''42''))"
  by (simp add: Edge_def QueryRow_def selection_columns_def Let_def decimal_def
      decimal_nat.simps store_eval)

section \<open>Properties\<close>

text \<open>
  C1, as amended. Round trip of a vertex. On a store whose vertices table is there and
  has no row with the hash \<open>k\<close>, for a value \<open>v\<close> and an attribute map \<open>m\<close> that JSON
  encodes to texts it decodes back to \<open>v\<close> and \<open>m\<close>: \<open>AddVertex\<close> of \<open>k\<close>, \<open>v\<close> and
  properties with the attributes \<open>m\<close> (and any weight \<open>w\<close>) succeeds, and \<open>Vertex k\<close> on
  the store it leaves returns \<open>v\<close>, the same properties and no error.
\<close>

theorem AddVertex_Vertex_round_trip:
  assumes "vertices_ready s" and "vertex_rows_of s k = []"
    and "MarshalValue j v = Inr vb" and "UnmarshalValue j vb (ZeroValue j) = (v, None)"
    and "MarshalAttributes j m = Inr ab" and "UnmarshalAttributes j ab Map.empty = (m, None)"
  shows "snd (AddVertex j s k v \<lparr>Attributes = m, Weight = w\<rparr>) = None \<and>
         Vertex j (fst (AddVertex j s k v \<lparr>Attributes = m, Weight = w\<rparr>)) k =
           (v, \<lparr>Attributes = m, Weight = w\<rparr>, None)"
proof -
  let ?p = "\<lparr>Attributes = m, Weight = w\<rparr>"
  let ?s = "fst (AddVertex j s k v ?p)"
  have ok: "snd (AddVertex j s k v ?p) = None"
    using assms by (simp add: AddVertex_ready(1))
  obtain r where rows: "vertex_rows ?s = vertex_rows s @ [r]"
    and r: "r ''hash'' = Some (SQLKey k)" "r ''value'' = Some (SQLBytes vb)"
      "r ''weight'' = Some (SQLInt w)" "r ''attributes'' = Some (SQLBytes ab)"
    using AddVertex_ready(2) [of s j v vb ?p ab k] assms by auto
  from rows r assms(2) have "vertex_rows_of ?s k = [r]"
    by (simp add: vertex_rows_of_def)
  moreover have "vertices_ready ?s"
    using assms(1) by (rule vertices_ready_AddVertex)
  ultimately have "Vertex j ?s k = (v, ?p, None)"
    using r assms(4,6) by (simp add: Vertex_def Vertex_query Let_def)
  with ok show ?thesis by simp
qed

theorem AddVertex_Vertex_round_trip_witness:
  "snd (AddVertex test_json (fst createStore :: (int, string) Store) 1 1
          \<lparr>Attributes = [''abc'' \<mapsto> ''xyz''], Weight = 5\<rparr>) = None \<and>
   Vertex test_json (fst (AddVertex test_json (fst createStore :: (int, string) Store) 1 1
          \<lparr>Attributes = [''abc'' \<mapsto> ''xyz''], Weight = 5\<rparr>)) 1 =
     (1, \<lparr>Attributes = [''abc'' \<mapsto> ''xyz''], Weight = 5\<rparr>, None)"
proof -
  have "vertices_ready (fst createStore :: (int, string) Store)"
    by (simp add: store_eval view_eval)
  moreover have "vertex_rows_of (fst createStore :: (int, string) Store) 1 = []"
    by (simp add: store_eval view_eval)
  moreover have "MarshalValue test_json 1 = Inr ''1''"
    by (simp add: store_eval)
  moreover have "UnmarshalValue test_json ''1'' (ZeroValue test_json) = (1, None)"
    by (simp add: store_eval)
  moreover have \<open>MarshalAttributes test_json [''abc'' \<mapsto> ''xyz''] = Inr ''{"abc":"xyz"}''\<close>
    by (simp add: store_eval)
  moreover have \<open>UnmarshalAttributes test_json ''{"abc":"xyz"}'' Map.empty = ([''abc'' \<mapsto> ''xyz''], None)\<close>
    by (simp add: store_eval)
  ultimately show ?thesis
    by (rule AddVertex_Vertex_round_trip)
qed

text \<open>
  That the value encodes is not enough: a store of \<^verbatim>\<open>Store[int, any]\<close> encodes the
  \<^verbatim>\<open>int\<close> 1 as \<^verbatim>\<open>1\<close>, and decodes \<^verbatim>\<open>1\<close> as the \<^verbatim>\<open>float64\<close> 1.
\<close>

theorem AddVertex_Vertex_lossy_counterexample:
  "vertex_rows_of (fst createStore :: (int, string) Store) 1 = [] \<and>
   MarshalValue any_json (AnyInt 1) = Inr ''1'' \<and>
   snd (AddVertex any_json (fst createStore :: (int, string) Store) 1 (AnyInt 1)
          zeroVertexProperties) = None \<and>
   Vertex any_json
     (fst (AddVertex any_json (fst createStore :: (int, string) Store) 1 (AnyInt 1)
          zeroVertexProperties)) 1 =
     (AnyFloat64 1, zeroVertexProperties, None) \<and>
   Vertex any_json
     (fst (AddVertex any_json (fst createStore :: (int, string) Store) 1 (AnyInt 1)
          zeroVertexProperties)) 1 \<noteq>
     (AnyInt 1, zeroVertexProperties, None)"
  by (simp add: any_json_def Vertex_def QueryRow_def selection_columns_def Let_def
      store_eval view_eval)



text \<open>
  C3. When the vertices table is there and no row has the hash \<open>k\<close>, \<open>Vertex\<close> fails
  with the not-found error of the empty result, \<^verbatim>\<open>sql.ErrNoRows\<close> wrapped in
  \<^verbatim>\<open>failed to query vertex\<close>. When the first row with the hash scans, and the text of its
  value does not decode, \<open>Vertex\<close> fails with the decoder's error wrapped in
  \<^verbatim>\<open>failed to unmarshal value\<close>; when the value decodes and the text of its attributes
  does not, with the decoder's error wrapped in \<^verbatim>\<open>failed to unmarshal attributes\<close>.
\<close>

theorem Vertex_not_found_or_decode_error:
  "(vertices_ready s \<and> vertex_rows_of s k = [] \<longrightarrow>
      snd (snd (Vertex j s k)) = Some (Errorf ''failed to query vertex'' ErrNoRows)) \<and>
   (vertices_ready s \<and> vertex_rows_of s k \<noteq> [] \<and>
    scan_bytes 0 (hd (vertex_rows_of s k) ''value'') = Inr vb \<and>
    scan_int 1 (hd (vertex_rows_of s k) ''weight'') = Inr w \<and>
    scan_bytes 2 (hd (vertex_rows_of s k) ''attributes'') = Inr ab \<and>
    snd (UnmarshalValue j vb (ZeroValue j)) = Some m \<longrightarrow>
      snd (snd (Vertex j s k)) = Some (Errorf ''failed to unmarshal value'' (JSONError m))) \<and>
   (vertices_ready s \<and> vertex_rows_of s k \<noteq> [] \<and>
    scan_bytes 0 (hd (vertex_rows_of s k) ''value'') = Inr vb \<and>
    scan_int 1 (hd (vertex_rows_of s k) ''weight'') = Inr w \<and>
    scan_bytes 2 (hd (vertex_rows_of s k) ''attributes'') = Inr ab \<and>
    snd (UnmarshalValue j vb (ZeroValue j)) = None \<and>
    snd (UnmarshalAttributes j ab Map.empty) = Some m \<longrightarrow>
      snd (snd (Vertex j s k)) = Some (Errorf ''failed to unmarshal attributes'' (JSONError m)))"
  by (cases "vertex_rows_of s k")
     (auto simp: Vertex_def Vertex_query Let_def split: prod.split)

theorem Vertex_not_found_or_decode_error_witness:
  "snd (snd (Vertex test_json (fst createStore :: (int, string) Store) 3)) =
     Some (Errorf ''failed to query vertex'' ErrNoRows) \<and>
   snd (snd (Vertex (json_of_table [(2, ''2'')] [(Map.empty, ''null'')] 0)
     (fst (AddVertex test_json (fst createStore :: (int, string) Store) 1 1 zeroVertexProperties)) 1)) =
     Some (Errorf ''failed to unmarshal value'' (JSONError ''json: cannot unmarshal'')) \<and>
   snd (snd (Vertex (json_of_table [(1, ''1'')] [] 0)
     (fst (AddVertex test_json (fst createStore :: (int, string) Store) 1 1 zeroVertexProperties)) 1)) =
     Some (Errorf ''failed to unmarshal attributes'' (JSONError ''json: cannot unmarshal''))"
proof -
  let ?s0 = "fst createStore :: (int, string) Store"
  let ?s1 = "fst (AddVertex test_json ?s0 1 1 zeroVertexProperties)"
  have a: "snd (snd (Vertex test_json ?s0 3)) = Some (Errorf ''failed to query vertex'' ErrNoRows)"
    using Vertex_not_found_or_decode_error [where s = ?s0 and k = 3 and j = test_json, THEN conjunct1]
    by (simp add: store_eval view_eval)
  have b: "snd (snd (Vertex (json_of_table [(2, ''2'')] [(Map.empty, ''null'')] 0) ?s1 1)) =
     Some (Errorf ''failed to unmarshal value'' (JSONError ''json: cannot unmarshal''))"
    using Vertex_not_found_or_decode_error
      [where s = ?s1 and k = 1 and vb = "''1''" and w = 0 and ab = "''null''"
         and j = "json_of_table [(2, ''2'')] [(Map.empty, ''null'')] 0"
         and m = "''json: cannot unmarshal''", THEN conjunct2, THEN conjunct1]
    by (simp add: store_eval view_eval)
  have c: "snd (snd (Vertex (json_of_table [(1, ''1'')] [] 0) ?s1 1)) =
     Some (Errorf ''failed to unmarshal attributes'' (JSONError ''json: cannot unmarshal''))"
    using Vertex_not_found_or_decode_error
      [where s = ?s1 and k = 1 and vb = "''1''" and w = 0 and ab = "''null''"
         and j = "json_of_table [(1, ''1'')] [] 0"
         and m = "''json: cannot unmarshal''", THEN conjunct2, THEN conjunct2]
    by (simp add: store_eval view_eval)
  from a b c show ?thesis by simp
qed

text \<open>
  C4, as amended. \<open>UpdateEdge\<close> overwrites. On a store whose edges table is there, for
  edges \<open>e1\<close> and \<open>e2\<close> whose attributes encode and whose data \<^verbatim>\<open>database/sql\<close> converts:
  \<open>AddEdge a b e1\<close> and then \<open>UpdateEdge a b e2\<close> succeed, and the edge that \<open>Edge a b\<close>
  returns afterwards has the weight of \<open>e2\<close>, the attributes decoded from the text of
  \<open>e2\<close>'s attributes, and as data what the database returns of the converted data of
  \<open>e2\<close>: nothing of \<open>e1\<close> is left. Where that text decodes back to \<open>e2\<close>'s attributes and
  the database returns the data as \<open>e2\<close> has it, \<open>Edge a b\<close> returns exactly the properties
  of \<open>e2\<close> and no error. When no row has the pair \<open>(a, b)\<close>, \<open>UpdateEdge\<close> returns no error
  and the store is as it was. And data that \<^verbatim>\<open>database/sql\<close> cannot convert makes
  \<open>UpdateEdge\<close> return that error and leave the store as it was, whatever the rows.
\<close>

theorem UpdateEdge_overwrites:
  "(edges_ready s \<and> MarshalAttributes j (Attributes (Properties e1)) = Inr ab1 \<and>
    convert_argument 5 (Data (Properties e1)) = Inr d1 \<and>
    MarshalAttributes j (Attributes (Properties e2)) = Inr ab2 \<and>
    convert_argument 3 (Data (Properties e2)) = Inr d2 \<longrightarrow>
      snd (AddEdge j s a b e1) = None \<and>
      snd (UpdateEdge j (fst (AddEdge j s a b e1)) a b e2) = None \<and>
      Weight (Properties (fst (Edge j (fst (UpdateEdge j (fst (AddEdge j s a b e1)) a b e2)) a b))) =
        Weight (Properties e2) \<and>
      Data (Properties (fst (Edge j (fst (UpdateEdge j (fst (AddEdge j s a b e1)) a b e2)) a b))) =
        DriverValue (stored_in_blob (dialect (db s)) d2) \<and>
      Attributes (Properties
          (fst (Edge j (fst (UpdateEdge j (fst (AddEdge j s a b e1)) a b e2)) a b))) =
        fst (UnmarshalAttributes j ab2 Map.empty)) \<and>
   (edges_ready s \<and> MarshalAttributes j (Attributes (Properties e1)) = Inr ab1 \<and>
    convert_argument 5 (Data (Properties e1)) = Inr d1 \<and>
    MarshalAttributes j (Attributes (Properties e2)) = Inr ab2 \<and>
    convert_argument 3 (Data (Properties e2)) = Inr d2 \<and>
    UnmarshalAttributes j ab2 Map.empty = (Attributes (Properties e2), None) \<and>
    DriverValue (stored_in_blob (dialect (db s)) d2) = Data (Properties e2) \<longrightarrow>
      Edge j (fst (UpdateEdge j (fst (AddEdge j s a b e1)) a b e2)) a b =
        (\<lparr>Source = a, Target = b, Properties = Properties e2\<rparr>, None)) \<and>
   (edges_ready s \<and> MarshalAttributes j (Attributes (Properties e2)) = Inr ab2 \<and>
    convert_argument 3 (Data (Properties e2)) = Inr d2 \<and>
    edge_rows_of s a b = [] \<longrightarrow>
      UpdateEdge j s a b e2 = (s, None)) \<and>
   (MarshalAttributes j (Attributes (Properties e2)) = Inr ab2 \<and>
    convert_argument 3 (Data (Properties e2)) = Inl err \<longrightarrow>
      UpdateEdge j s a b e2 = (s, Some err))"
proof -
  let ?s1 = "fst (AddEdge j s a b e1)"
  let ?s2 = "fst (UpdateEdge j ?s1 a b e2)"
  let ?upd = "updated_edge_row (Weight (Properties e2)) ab2 (stored_in_blob (dialect (db s)) d2)"
  have upd: "\<exists>r rs. edge_rows_of ?s2 a b = ?upd r # rs" and ok1: "snd (AddEdge j s a b e1) = None"
    and ok2: "snd (UpdateEdge j ?s1 a b e2) = None" and rdy2: "edges_ready ?s2"
    if rdy: "edges_ready s"
      and m1: "MarshalAttributes j (Attributes (Properties e1)) = Inr ab1"
      and c1: "convert_argument 5 (Data (Properties e1)) = Inr d1"
      and m2: "MarshalAttributes j (Attributes (Properties e2)) = Inr ab2"
      and c2: "convert_argument 3 (Data (Properties e2)) = Inr d2"
  proof -
    note a1 = data_argument_convert [OF c1, of "dialect (db s)"]
    have a2: "data_argument (dialect (db ?s1)) 3 (Data (Properties e2)) =
        Inr (stored_in_blob (dialect (db s)) d2)"
      using data_argument_convert [OF c2, of "dialect (db s)"] by (simp add: dialect_AddEdge)
    show "snd (AddEdge j s a b e1) = None"
      using rdy m1 a1 by (rule AddEdge_ready(1))
    have rdy1: "edges_ready ?s1"
      using rdy by (rule edges_ready_AddEdge)
    show "snd (UpdateEdge j ?s1 a b e2) = None"
      using rdy1 m2 a2 by (rule UpdateEdge_ready(1))
    show "edges_ready ?s2"
      using rdy1 by (rule edges_ready_UpdateEdge)
    obtain r where rows1: "edge_rows ?s1 = edge_rows s @ [r]"
      and r: "edge_row_matches a b r"
      using AddEdge_ready(2) [OF rdy m1 a1, of a b] by (auto simp: edge_row_matches_def)
    have "edge_rows_of ?s2 a b = map ?upd (edge_rows_of ?s1 a b)"
      by (simp add: edge_rows_of_def UpdateEdge_ready(2) [OF rdy1 m2 a2] filter_matches_update)
    moreover from rows1 r have "edge_rows_of ?s1 a b \<noteq> []"
      by (simp add: edge_rows_of_def)
    ultimately show "\<exists>r rs. edge_rows_of ?s2 a b = ?upd r # rs"
      by (cases "edge_rows_of ?s1 a b") auto
  qed
  have 1: "snd (AddEdge j s a b e1) = None \<and> snd (UpdateEdge j ?s1 a b e2) = None \<and>
      Weight (Properties (fst (Edge j ?s2 a b))) = Weight (Properties e2) \<and>
      Data (Properties (fst (Edge j ?s2 a b))) = DriverValue (stored_in_blob (dialect (db s)) d2) \<and>
      Attributes (Properties (fst (Edge j ?s2 a b))) = fst (UnmarshalAttributes j ab2 Map.empty)"
    if rdy: "edges_ready s"
      and m1: "MarshalAttributes j (Attributes (Properties e1)) = Inr ab1"
      and c1: "convert_argument 5 (Data (Properties e1)) = Inr d1"
      and m2: "MarshalAttributes j (Attributes (Properties e2)) = Inr ab2"
      and c2: "convert_argument 3 (Data (Properties e2)) = Inr d2"
  proof -
    from upd [OF that] obtain r rs where rows2: "edge_rows_of ?s2 a b = ?upd r # rs" by blast
    show ?thesis
      using ok1 [OF that] ok2 [OF that]
      by (simp add: Edge_def Edge_query [OF rdy2 [OF that]] rows2 updated_edge_row_def
          zeroEdgeProperties_def Let_def split: prod.split option.split)
  qed
  have 2: "Edge j ?s2 a b = (\<lparr>Source = a, Target = b, Properties = Properties e2\<rparr>, None)"
    if rdy: "edges_ready s"
      and m1: "MarshalAttributes j (Attributes (Properties e1)) = Inr ab1"
      and c1: "convert_argument 5 (Data (Properties e1)) = Inr d1"
      and m2: "MarshalAttributes j (Attributes (Properties e2)) = Inr ab2"
      and c2: "convert_argument 3 (Data (Properties e2)) = Inr d2"
      and u2: "UnmarshalAttributes j ab2 Map.empty = (Attributes (Properties e2), None)"
      and same: "DriverValue (stored_in_blob (dialect (db s)) d2) = Data (Properties e2)"
  proof -
    from upd [OF that(1-5)] obtain r rs where rows2: "edge_rows_of ?s2 a b = ?upd r # rs"
      by blast
    show ?thesis
      using u2 same
      by (simp add: Edge_def Edge_query [OF rdy2 [OF that(1-5)]] rows2 updated_edge_row_def
          zeroEdgeProperties_def Let_def)
  qed
  have 3: "UpdateEdge j s a b e2 = (s, None)"
    if rdy: "edges_ready s"
      and m2: "MarshalAttributes j (Attributes (Properties e2)) = Inr ab2"
      and c2: "convert_argument 3 (Data (Properties e2)) = Inr d2"
      and none: "edge_rows_of s a b = []"
  proof -
    from rdy obtain tb where tb: "tables (db s) (EdgesTable (config s)) = Some tb"
      and cols: "unknown_column tb [''source_hash'', ''target_hash'', ''weight'', ''attributes'', ''data''] = None"
      and rs: "edge_rows s = rows tb"
      by (rule edges_readyE)
    from cols have cs: "unknown_column tb [''weight'', ''attributes'', ''data'', ''source_hash'', ''target_hash''] = None"
      by (auto simp: unknown_column_None_iff)
    from none rs have "map (\<lambda>r. if edge_row_matches a b r
        then assign [(''weight'', Some (SQLInt (Weight (Properties e2)))),
                     (''attributes'', Some (SQLBytes ab2)),
                     (''data'', stored_in_blob (dialect (db s)) d2)] r
        else r) (rows tb) = rows tb"
      by (simp add: edge_rows_of_def map_update_no_match)
    then show ?thesis
      using tb cs m2 data_argument_convert [OF c2, of "dialect (db s)"]
      by (simp add: UpdateEdge_def matches_pair store_db_same)
  qed
  have 4: "UpdateEdge j s a b e2 = (s, Some err)"
    if m2: "MarshalAttributes j (Attributes (Properties e2)) = Inr ab2"
      and c2: "convert_argument 3 (Data (Properties e2)) = Inl err"
    using that by (simp add: UpdateEdge_def data_argument_def)
  from 1 2 3 4 show ?thesis by blast
qed

theorem UpdateEdge_overwrites_witness:
  \<open>Edge test_json
     (fst (UpdateEdge test_json
        (fst (AddEdge test_json (fst createStore :: (int, string) Store) 1 1
           \<lparr>Source = 1, Target = 1, Properties = zeroEdgeProperties\<rparr>)) 1 1
        \<lparr>Source = 1, Target = 1, Properties =
           \<lparr>Attributes = [''abc'' \<mapsto> ''xyz''], Weight = 5,
            Data = DriverValue (Some (SQLString ''happy''))\<rparr>\<rparr>)) 1 1 =
     (\<lparr>Source = 1, Target = 1, Properties =
         \<lparr>Attributes = [''abc'' \<mapsto> ''xyz''], Weight = 5,
          Data = DriverValue (Some (SQLString ''happy''))\<rparr>\<rparr>, None) \<and>
   Weight (Properties (fst (Edge test_json
     (fst (UpdateEdge test_json
        (fst (AddEdge test_json (fst createStore :: (int, string) Store) 1 1
           \<lparr>Source = 1, Target = 1, Properties = zeroEdgeProperties\<rparr>)) 1 1
        \<lparr>Source = 1, Target = 1, Properties =
           \<lparr>Attributes = [''abc'' \<mapsto> ''xyz''], Weight = 5,
            Data = DriverValue (Some (SQLString ''happy''))\<rparr>\<rparr>)) 1 1))) = 5 \<and>
   UpdateEdge test_json (fst createStore :: (int, string) Store) 1 1
     \<lparr>Source = 1, Target = 1, Properties =
        \<lparr>Attributes = [''abc'' \<mapsto> ''xyz''], Weight = 5,
         Data = DriverValue (Some (SQLString ''happy''))\<rparr>\<rparr> =
     (fst createStore, None) \<and>
   UpdateEdge test_json (fst createStore :: (int, string) Store) 1 1
     \<lparr>Source = 1, Target = 1, Properties =
        \<lparr>Attributes = [''abc'' \<mapsto> ''xyz''], Weight = 5, Data = Unsupported ''struct {}''\<rparr>\<rparr> =
     (fst createStore, Some (ConvertError 3 ''struct {}''))\<close>
proof -
  let ?s0 = "fst createStore :: (int, string) Store"
  let ?e1 = "\<lparr>Source = 1, Target = 1, Properties = zeroEdgeProperties\<rparr> :: (int, string) Edge"
  let ?e2 = "\<lparr>Source = 1, Target = 1, Properties =
     \<lparr>Attributes = [''abc'' \<mapsto> ''xyz''], Weight = 5,
      Data = DriverValue (Some (SQLString ''happy''))\<rparr>\<rparr> :: (int, string) Edge"
  let ?e3 = "\<lparr>Source = 1, Target = 1, Properties =
     \<lparr>Attributes = [''abc'' \<mapsto> ''xyz''], Weight = 5,
      Data = Unsupported ''struct {}''\<rparr>\<rparr> :: (int, string) Edge"
  have rdy: "edges_ready ?s0" and none: "edge_rows_of ?s0 1 1 = []"
    and dl: "dialect (db ?s0) = SQLite"
    by (simp_all add: store_eval view_eval)
  have m1: "MarshalAttributes test_json (Attributes (Properties ?e1)) = Inr ''null''"
    by (simp add: store_eval)
  have c1: "convert_argument 5 (Data (Properties ?e1)) = Inr None"
    by (simp add: store_eval)
  have m2: \<open>MarshalAttributes test_json (Attributes (Properties ?e2)) = Inr ''{"abc":"xyz"}''\<close>
    by (simp add: store_eval)
  have c2: "convert_argument 3 (Data (Properties ?e2)) = Inr (Some (SQLString ''happy''))"
    by (simp add: convert_argument_def)
  have u2: \<open>UnmarshalAttributes test_json ''{"abc":"xyz"}'' Map.empty =
      (Attributes (Properties ?e2), None)\<close>
    by (simp add: store_eval)
  have m3: \<open>MarshalAttributes test_json (Attributes (Properties ?e3)) = Inr ''{"abc":"xyz"}''\<close>
    by (simp add: store_eval)
  have c3: "convert_argument 3 (Data (Properties ?e3)) = Inl (ConvertError 3 ''struct {}'')"
    by (simp add: convert_argument_def)
  from UpdateEdge_overwrites [where s = ?s0 and j = test_json and ?e1.0 = ?e1 and ?e2.0 = ?e2
      and a = 1 and b = 1 and ?ab1.0 = "''null''" and ?ab2.0 = \<open>''{"abc":"xyz"}''\<close>
      and ?d1.0 = None and ?d2.0 = "Some (SQLString ''happy'')"]
    rdy none dl m1 c1 m2 c2 u2
  have a: "Edge test_json (fst (UpdateEdge test_json (fst (AddEdge test_json ?s0 1 1 ?e1)) 1 1 ?e2)) 1 1 =
      (?e2, None) \<and>
    Weight (Properties (fst (Edge test_json
      (fst (UpdateEdge test_json (fst (AddEdge test_json ?s0 1 1 ?e1)) 1 1 ?e2)) 1 1))) = 5 \<and>
    UpdateEdge test_json ?s0 1 1 ?e2 = (?s0, None)"
    by simp
  from UpdateEdge_overwrites [where s = ?s0 and j = test_json and ?e2.0 = ?e3
      and a = 1 and b = 1 and ?ab2.0 = \<open>''{"abc":"xyz"}''\<close>
      and err = "ConvertError 3 ''struct {}''"]
    m3 c3
  have b: "UpdateEdge test_json ?s0 1 1 ?e3 = (?s0, Some (ConvertError 3 ''struct {}''))"
    by simp
  from a b show ?thesis by simp
qed

text \<open>
  The claim as it stands fails on the store of the tests, on each of its three parts.
  Data of the type \<^verbatim>\<open>int\<close> comes back as an \<^verbatim>\<open>int64\<close>, which is another value of the type
  \<^verbatim>\<open>any\<close>; a string that is not valid UTF-8 comes back, as an attribute, as the
  replacement character; and with data that \<^verbatim>\<open>database/sql\<close> cannot convert,
  \<open>UpdateEdge\<close> returns an error although no row has the pair.
\<close>

theorem UpdateEdge_overwrites_counterexample:
  "Edge test_json
     (fst (UpdateEdge test_json
        (fst (AddEdge test_json (fst createStore :: (int, string) Store) 1 1
           \<lparr>Source = 1, Target = 1, Properties = zeroEdgeProperties\<rparr>)) 1 1
        \<lparr>Source = 1, Target = 1, Properties =
           \<lparr>Attributes = [''abc'' \<mapsto> ''xyz''], Weight = 5, Data = GoInt 7\<rparr>\<rparr>)) 1 1 =
     (\<lparr>Source = 1, Target = 1, Properties =
         \<lparr>Attributes = [''abc'' \<mapsto> ''xyz''], Weight = 5,
          Data = DriverValue (Some (SQLInt 7))\<rparr>\<rparr>, None) \<and>
   Data (Properties (fst (Edge test_json
     (fst (UpdateEdge test_json
        (fst (AddEdge test_json (fst createStore :: (int, string) Store) 1 1
           \<lparr>Source = 1, Target = 1, Properties = zeroEdgeProperties\<rparr>)) 1 1
        \<lparr>Source = 1, Target = 1, Properties =
           \<lparr>Attributes = [''abc'' \<mapsto> ''xyz''], Weight = 5, Data = GoInt 7\<rparr>\<rparr>)) 1 1))) \<noteq>
     GoInt 7 \<and>
   Edge invalid_utf8_json
     (fst (UpdateEdge invalid_utf8_json
        (fst (AddEdge invalid_utf8_json (fst createStore :: (int, string) Store) 1 1
           \<lparr>Source = 1, Target = 1, Properties = zeroEdgeProperties\<rparr>)) 1 1
        \<lparr>Source = 1, Target = 1, Properties =
           \<lparr>Attributes = [''k'' \<mapsto> [CHR 0xFF]], Weight = 5, Data = DriverValue None\<rparr>\<rparr>)) 1 1 =
     (\<lparr>Source = 1, Target = 1, Properties =
         \<lparr>Attributes = [''k'' \<mapsto> [CHR 0xEF, CHR 0xBF, CHR 0xBD]], Weight = 5,
          Data = DriverValue None\<rparr>\<rparr>, None) \<and>
   edge_rows_of (fst createStore :: (int, string) Store) 1 1 = [] \<and>
   UpdateEdge test_json (fst createStore :: (int, string) Store) 1 1
     \<lparr>Source = 1, Target = 1, Properties =
        \<lparr>Attributes = [''abc'' \<mapsto> ''xyz''], Weight = 5, Data = Unsupported ''struct {}''\<rparr>\<rparr> =
     (fst createStore, Some (ConvertError 3 ''struct {}''))"
  by (simp add: invalid_utf8_json_def replacement_text_def updated_edge_row_def Edge_def QueryRow_def selection_columns_def
      Let_def store_eval view_eval)

text \<open>
  C5. \<open>EdgeCount\<close> counts by the column \<^verbatim>\<open>source_hash\<close>, which no row written by the
  store leaves NULL (and not by \<^verbatim>\<open>id\<close>): on a store whose tables have just been set up,
  after any sequence of calls, on either engine, every row of the edges table has its
  source hash and \<open>EdgeCount\<close> is the number of rows of the table. In particular, for two
  different hashes \<open>k1\<close> and \<open>k2\<close> and an edge that \<open>AddEdge\<close> takes (its attributes
  encode, its data converts): after adding the two vertices the count is 0, after
  adding the edges \<open>(k1, k2)\<close>, \<open>(k2, k1)\<close>, \<open>(k1, k1)\<close>, \<open>(k2, k2)\<close> it is 4, and after
  removing the edge \<open>(k2, k2)\<close> it is 3.
\<close>

theorem EdgeCount_counts_rows:
  "(SetupTables s0 = (s, None) \<longrightarrow>
      list_all (\<lambda>r. r ''source_hash'' \<noteq> None) (edge_rows (run j cs s)) \<and>
      EdgeCount (run j cs s) = (int (length (edge_rows (run j cs s))), None)) \<and>
   (SetupTables s0 = (s, None) \<and> MarshalAttributes j (Attributes (Properties e)) = Inr ab \<and>
    convert_argument 5 (Data (Properties e)) = Inr dt \<and> k1 \<noteq> k2 \<longrightarrow>
      EdgeCount (run j [CallAddVertex k1 v1 p1, CallAddVertex k2 v2 p2] s) = (0, None) \<and>
      EdgeCount (run j [CallAddVertex k1 v1 p1, CallAddVertex k2 v2 p2,
                        CallAddEdge k1 k2 e, CallAddEdge k2 k1 e,
                        CallAddEdge k1 k1 e, CallAddEdge k2 k2 e] s) = (4, None) \<and>
      EdgeCount (run j [CallAddVertex k1 v1 p1, CallAddVertex k2 v2 p2,
                        CallAddEdge k1 k2 e, CallAddEdge k2 k1 e,
                        CallAddEdge k1 k1 e, CallAddEdge k2 k2 e,
                        CallRemoveEdge k2 k2] s) = (3, None))"
proof (intro conjI impI; (elim conjE)?)
  assume "SetupTables s0 = (s, None)"
  then have rdy: "ready s" and "edge_rows s = []"
    by (rule SetupTables_ready)+
  then have nonnull: "None \<notin> fst ` set (edge_keys s)"
    by (simp add: edge_keys_def)
  show "list_all (\<lambda>r. r ''source_hash'' \<noteq> None) (edge_rows (run j cs s))"
    using rdy nonnull by (rule EdgeCount_run(1))
  show "EdgeCount (run j cs s) = (int (length (edge_rows (run j cs s))), None)"
    using rdy nonnull by (rule EdgeCount_run(2))
next
  assume su: "SetupTables s0 = (s, None)"
    and m: "MarshalAttributes j (Attributes (Properties e)) = Inr ab"
    and c: "convert_argument 5 (Data (Properties e)) = Inr dt" and ne: "k1 \<noteq> k2"
  from su have rdy: "ready s" and "edge_rows s = []"
    by (rule SetupTables_ready)+
  then have keys: "edge_keys s = []"
    by (simp add: edge_keys_def)
  have count: "EdgeCount (run j cs s) =
      (int (length (filter (\<lambda>p. fst p \<noteq> None) (edge_keys (run j cs s)))), None)" for cs
    using ready_run [OF rdy, of j cs] by (intro EdgeCount_keys) (simp add: ready_def)
  have ok: "snd (AddEdge j s' a b e) = None" if "ready s'" for s' a b
    using that m c by (intro AddEdge_ok) (simp_all add: ready_def)
  note step = ready_calls ready_edge_keys(1,2,4,5) ready_edge_keys(3) ok
  show "EdgeCount (run j [CallAddVertex k1 v1 p1, CallAddVertex k2 v2 p2] s) = (0, None)"
    using rdy keys by (subst count) (simp add: step)
  show "EdgeCount (run j [CallAddVertex k1 v1 p1, CallAddVertex k2 v2 p2,
                        CallAddEdge k1 k2 e, CallAddEdge k2 k1 e,
                        CallAddEdge k1 k1 e, CallAddEdge k2 k2 e] s) = (4, None)"
    using rdy keys by (subst count) (simp add: step)
  show "EdgeCount (run j [CallAddVertex k1 v1 p1, CallAddVertex k2 v2 p2,
                        CallAddEdge k1 k2 e, CallAddEdge k2 k1 e,
                        CallAddEdge k1 k1 e, CallAddEdge k2 k2 e,
                        CallRemoveEdge k2 k2] s) = (3, None)"
    using rdy keys ne by (subst count) (simp add: step)
qed

theorem EdgeCount_counts_rows_witness:
  "EdgeCount (run test_json
       [CallAddVertex 1 1 zeroVertexProperties, CallAddVertex 2 2 zeroVertexProperties]
       (fst createStore :: (int, string) Store)) = (0, None) \<and>
   EdgeCount (run test_json
       [CallAddVertex 1 1 zeroVertexProperties, CallAddVertex 2 2 zeroVertexProperties,
        CallAddEdge 1 2 \<lparr>Source = 1, Target = 2, Properties = zeroEdgeProperties\<rparr>,
        CallAddEdge 2 1 \<lparr>Source = 1, Target = 2, Properties = zeroEdgeProperties\<rparr>,
        CallAddEdge 1 1 \<lparr>Source = 1, Target = 2, Properties = zeroEdgeProperties\<rparr>,
        CallAddEdge 2 2 \<lparr>Source = 1, Target = 2, Properties = zeroEdgeProperties\<rparr>]
       (fst createStore :: (int, string) Store)) = (4, None) \<and>
   EdgeCount (run test_json
       [CallAddVertex 1 1 zeroVertexProperties, CallAddVertex 2 2 zeroVertexProperties,
        CallAddEdge 1 2 \<lparr>Source = 1, Target = 2, Properties = zeroEdgeProperties\<rparr>,
        CallAddEdge 2 1 \<lparr>Source = 1, Target = 2, Properties = zeroEdgeProperties\<rparr>,
        CallAddEdge 1 1 \<lparr>Source = 1, Target = 2, Properties = zeroEdgeProperties\<rparr>,
        CallAddEdge 2 2 \<lparr>Source = 1, Target = 2, Properties = zeroEdgeProperties\<rparr>,
        CallRemoveEdge 2 2]
       (fst createStore :: (int, string) Store)) = (3, None) \<and>
   EdgeCount (run test_json
       [CallAddEdge 1 2 \<lparr>Source = 1, Target = 2, Properties = zeroEdgeProperties\<rparr>]
       (fst createStore :: (int, string) Store)) =
     (int (length (edge_rows (run test_json
       [CallAddEdge 1 2 \<lparr>Source = 1, Target = 2, Properties = zeroEdgeProperties\<rparr>]
       (fst createStore :: (int, string) Store)))), None)"
proof -
  let ?s = "fst createStore :: (int, string) Store"
  let ?e = "\<lparr>Source = 1, Target = 2, Properties = zeroEdgeProperties\<rparr> :: (int, string) Edge"
  have m: "MarshalAttributes test_json (Attributes (Properties ?e)) = Inr ''null''"
    by (simp add: store_eval)
  have c: "convert_argument 5 (Data (Properties ?e)) = Inr None"
    by (simp add: store_eval)
  have ne: "(1::int) \<noteq> 2" by simp
  note inst = EdgeCount_counts_rows [where ?s0.0 = "New (memory_database SQLite) DefaultConfig"
      and s = ?s and j = test_json and e = ?e and ab = "''null''" and dt = None
      and ?k1.0 = 1 and ?k2.0 = 2
      and ?v1.0 = 1 and ?v2.0 = 2 and ?p1.0 = zeroVertexProperties
      and ?p2.0 = zeroVertexProperties and cs = "[CallAddEdge 1 2 ?e]"]
  from inst [THEN conjunct2] createStore_SetupTables m c ne inst [THEN conjunct1]
  show ?thesis by simp
qed

text \<open>
  C6, as amended. On a store whose tables have just been set up, after a sequence of
  calls in which every \<open>AddVertex\<close> that succeeded added a hash not stored at that moment
  and every \<open>RemoveVertex\<close> that succeeded removed a hash stored at that moment,
  \<open>VertexCount\<close> is the number of \<open>AddVertex\<close> calls that succeeded minus the number of
  \<open>RemoveVertex\<close> calls that succeeded. In particular, for four different hashes: after
  adding the four vertices the count is 4; after removing the third it is 3 and
  \<open>Vertex\<close> of the third fails with the not-found error.
\<close>

theorem VertexCount_adds_minus_removes:
  "(SetupTables s0 = (s, None) \<and> adds_new_removes_stored [] (call_log j cs s) \<longrightarrow>
      VertexCount (run j cs s) =
        (int (vertices_added (call_log j cs s)) - int (vertices_removed (call_log j cs s)),
         None)) \<and>
   (SetupTables s0 = (s, None) \<and> distinct [k1, k2, k3, k4] \<and>
    MarshalValue j v1 = Inr vb1 \<and> MarshalValue j v2 = Inr vb2 \<and>
    MarshalValue j v3 = Inr vb3 \<and> MarshalValue j v4 = Inr vb4 \<and>
    MarshalAttributes j (Attributes p) = Inr ab \<longrightarrow>
      VertexCount (run j [CallAddVertex k1 v1 p, CallAddVertex k2 v2 p,
                          CallAddVertex k3 v3 p, CallAddVertex k4 v4 p] s) = (4, None) \<and>
      VertexCount (run j [CallAddVertex k1 v1 p, CallAddVertex k2 v2 p,
                          CallAddVertex k3 v3 p, CallAddVertex k4 v4 p,
                          CallRemoveVertex k3] s) = (3, None) \<and>
      snd (snd (Vertex j (run j [CallAddVertex k1 v1 p, CallAddVertex k2 v2 p,
                                 CallAddVertex k3 v3 p, CallAddVertex k4 v4 p,
                                 CallRemoveVertex k3] s) k3)) =
        Some (Errorf ''failed to query vertex'' ErrNoRows))"
proof (intro conjI impI; (elim conjE)?)
  assume su: "SetupTables s0 = (s, None)"
    and disc: "adds_new_removes_stored [] (call_log j cs s)"
  from su have rdy: "ready s" and "vertex_rows s = []"
    by (rule SetupTables_ready)+
  then have keys: "vertex_keys s = map (\<lambda>x. Some (SQLKey x)) []"
    by (simp add: vertex_keys_def)
  from VertexCount_run [OF rdy keys _ disc]
  show "VertexCount (run j cs s) =
        (int (vertices_added (call_log j cs s)) - int (vertices_removed (call_log j cs s)),
         None)"
    by simp
next
  assume su: "SetupTables s0 = (s, None)" and d: "distinct [k1, k2, k3, k4]"
    and m: "MarshalValue j v1 = Inr vb1" "MarshalValue j v2 = Inr vb2"
      "MarshalValue j v3 = Inr vb3" "MarshalValue j v4 = Inr vb4"
    and ma: "MarshalAttributes j (Attributes p) = Inr ab"
  from su have rdy: "ready s" and "vertex_rows s = []"
    by (rule SetupTables_ready)+
  then have keys: "vertex_keys s = []"
    by (simp add: vertex_keys_def)
  have vrdy: "vertices_ready (run j cs s)" for cs
    using ready_run [OF rdy, of j cs] by (simp add: ready_def)
  have count: "VertexCount (run j cs s) =
      (int (length (filter (\<lambda>h. h \<noteq> None) (vertex_keys (run j cs s)))), None)" for cs
    by (intro VertexCount_keys vrdy)
  note step = ready_calls ready_vertex_keys(2) ready_vertex_keys(1) [OF _ m(1) ma]
    ready_vertex_keys(1) [OF _ m(2) ma] ready_vertex_keys(1) [OF _ m(3) ma]
    ready_vertex_keys(1) [OF _ m(4) ma]
  show "VertexCount (run j [CallAddVertex k1 v1 p, CallAddVertex k2 v2 p,
                          CallAddVertex k3 v3 p, CallAddVertex k4 v4 p] s) = (4, None)"
    using rdy keys by (subst count) (simp add: step)
  show "VertexCount (run j [CallAddVertex k1 v1 p, CallAddVertex k2 v2 p,
                          CallAddVertex k3 v3 p, CallAddVertex k4 v4 p,
                          CallRemoveVertex k3] s) = (3, None)"
    using rdy keys d by (subst count) (auto simp: step)
  have "vertex_rows_of (run j [CallAddVertex k1 v1 p, CallAddVertex k2 v2 p,
                                 CallAddVertex k3 v3 p, CallAddVertex k4 v4 p,
                                 CallRemoveVertex k3] s) k3 = []"
    unfolding vertex_rows_of_Nil_iff using rdy keys d by (auto simp: step)
  with vrdy show "snd (snd (Vertex j (run j [CallAddVertex k1 v1 p, CallAddVertex k2 v2 p,
                                 CallAddVertex k3 v3 p, CallAddVertex k4 v4 p,
                                 CallRemoveVertex k3] s) k3)) =
        Some (Errorf ''failed to query vertex'' ErrNoRows)"
    by (rule Vertex_not_found)
qed

theorem VertexCount_adds_minus_removes_witness:
  "VertexCount (run test_json
       [CallAddVertex 1 1 zeroVertexProperties, CallAddVertex 2 2 zeroVertexProperties,
        CallRemoveVertex 1]
       (fst createStore :: (int, string) Store)) = (1, None) \<and>
   VertexCount (run test_json
       [CallAddVertex 1 1 zeroVertexProperties, CallAddVertex 2 2 zeroVertexProperties,
        CallAddVertex 3 3 zeroVertexProperties, CallAddVertex 4 4 zeroVertexProperties]
       (fst createStore :: (int, string) Store)) = (4, None) \<and>
   VertexCount (run test_json
       [CallAddVertex 1 1 zeroVertexProperties, CallAddVertex 2 2 zeroVertexProperties,
        CallAddVertex 3 3 zeroVertexProperties, CallAddVertex 4 4 zeroVertexProperties,
        CallRemoveVertex 3]
       (fst createStore :: (int, string) Store)) = (3, None) \<and>
   snd (snd (Vertex test_json (run test_json
       [CallAddVertex 1 1 zeroVertexProperties, CallAddVertex 2 2 zeroVertexProperties,
        CallAddVertex 3 3 zeroVertexProperties, CallAddVertex 4 4 zeroVertexProperties,
        CallRemoveVertex 3]
       (fst createStore :: (int, string) Store)) 3)) =
     Some (Errorf ''failed to query vertex'' ErrNoRows)"
proof -
  let ?s = "fst createStore :: (int, string) Store"
  let ?cs = "[CallAddVertex 1 1 zeroVertexProperties, CallAddVertex 2 2 zeroVertexProperties,
        CallRemoveVertex 1] :: (int, int, string) call list"
  have log: "call_log test_json ?cs ?s =
      [(CallAddVertex 1 1 zeroVertexProperties, None),
       (CallAddVertex 2 2 zeroVertexProperties, None), (CallRemoveVertex 1, None)]"
    by (simp add: call_log_def store_eval)
  have a: "VertexCount (run test_json ?cs ?s) = (1, None)"
    using VertexCount_adds_minus_removes [where ?s0.0 = "New (memory_database SQLite) DefaultConfig"
      and s = ?s and j = test_json and cs = ?cs, THEN conjunct1] createStore_SetupTables
    by (simp add: log)
  have m: "MarshalValue test_json 1 = Inr ''1''" "MarshalValue test_json 2 = Inr ''2''"
    "MarshalValue test_json 3 = Inr ''3''" "MarshalValue test_json 4 = Inr ''4''"
    "MarshalAttributes test_json (Attributes zeroVertexProperties) = Inr ''null''"
    by (simp_all add: store_eval)
  have d: "distinct [1 :: int, 2, 3, 4]" by simp
  from VertexCount_adds_minus_removes [where ?s0.0 = "New (memory_database SQLite) DefaultConfig"
      and s = ?s and j = test_json and ?k1.0 = 1 and ?k2.0 = 2 and ?k3.0 = 3 and ?k4.0 = 4
      and ?v1.0 = 1 and ?v2.0 = 2 and ?v3.0 = 3 and ?v4.0 = 4 and p = zeroVertexProperties
      and ?vb1.0 = "''1''" and ?vb2.0 = "''2''" and ?vb3.0 = "''3''" and ?vb4.0 = "''4''"
      and ab = "''null''", THEN conjunct2] createStore_SetupTables m d a
  show ?thesis by simp
qed

text \<open>
  Without the condition on \<open>RemoveVertex\<close> the law fails, since removing a hash that is
  not stored succeeds: \<open>AddVertex 1\<close> and \<open>RemoveVertex 2\<close> both succeed, on different
  hashes, and leave one vertex, while one success minus one success is 0.
\<close>

theorem VertexCount_law_counterexample:
  "outcomes test_json [CallAddVertex 1 1 zeroVertexProperties, CallRemoveVertex 2]
     (fst createStore :: (int, string) Store) = [None, None] \<and>
   distinct [1 :: int, 2] \<and>
   VertexCount (run test_json [CallAddVertex 1 1 zeroVertexProperties, CallRemoveVertex 2]
     (fst createStore :: (int, string) Store)) = (1, None) \<and>
   int (vertices_added (call_log test_json
         [CallAddVertex 1 1 zeroVertexProperties, CallRemoveVertex 2]
         (fst createStore :: (int, string) Store))) -
   int (vertices_removed (call_log test_json
         [CallAddVertex 1 1 zeroVertexProperties, CallRemoveVertex 2]
         (fst createStore :: (int, string) Store))) = 0 \<and>
   VertexCount (run test_json [CallAddVertex 1 1 zeroVertexProperties, CallRemoveVertex 2]
     (fst createStore :: (int, string) Store)) \<noteq>
     (int (vertices_added (call_log test_json
         [CallAddVertex 1 1 zeroVertexProperties, CallRemoveVertex 2]
         (fst createStore :: (int, string) Store))) -
      int (vertices_removed (call_log test_json
         [CallAddVertex 1 1 zeroVertexProperties, CallRemoveVertex 2]
         (fst createStore :: (int, string) Store))), None)"
  by (simp add: call_log_def VertexCount_def scan_count_def QueryRow_def selection_columns_def
      store_eval)

text \<open>
  C7. Removing what is not there succeeds. When the vertices table is there and no row
  has the hash \<open>k\<close>, \<open>RemoveVertex s k\<close> returns no error; when the edges table is there
  and no row has the pair \<open>(a, b)\<close>, \<open>RemoveEdge s a b\<close> returns no error. Both leave
  the store as it was.
\<close>

theorem Remove_absent_succeeds:
  "(vertices_ready s \<and> vertex_rows_of s k = [] \<longrightarrow> RemoveVertex s k = (s, None)) \<and>
   (edges_ready s \<and> edge_rows_of s a b = [] \<longrightarrow> RemoveEdge s a b = (s, None))"
proof (intro conjI impI; elim conjE)
  assume rdy: "vertices_ready s" and none: "vertex_rows_of s k = []"
  from rdy obtain tb where tb: "tables (db s) (VerticesTable (config s)) = Some tb"
    and cols: "unknown_column tb [''hash'', ''value'', ''weight'', ''attributes''] = None"
    and rs: "vertex_rows s = rows tb"
    by (rule vertices_readyE)
  from cols have c2: "unknown_column tb [''hash''] = None"
    by (auto simp: unknown_column_None_iff)
  from none rs have "filter (\<lambda>r. r ''hash'' \<noteq> Some (SQLKey k)) (rows tb) = rows tb"
    by (simp add: vertex_rows_of_def filter_empty_conv filter_id_conv)
  then show "RemoveVertex s k = (s, None)"
    using tb c2 by (simp add: RemoveVertex_def matches_hash store_db_same)
next
  assume rdy: "edges_ready s" and none: "edge_rows_of s a b = []"
  from rdy obtain tb where tb: "tables (db s) (EdgesTable (config s)) = Some tb"
    and cols: "unknown_column tb [''source_hash'', ''target_hash'', ''weight'', ''attributes'', ''data''] = None"
    and rs: "edge_rows s = rows tb"
    by (rule edges_readyE)
  from cols have c2: "unknown_column tb [''source_hash'', ''target_hash''] = None"
    by (auto simp: unknown_column_None_iff)
  from none rs have "filter (\<lambda>r. \<not> edge_row_matches a b r) (rows tb) = rows tb"
    by (simp add: edge_rows_of_def filter_empty_conv filter_id_conv)
  then show "RemoveEdge s a b = (s, None)"
    using tb c2 by (simp add: RemoveEdge_def matches_pair store_db_same)
qed

theorem Remove_absent_succeeds_witness:
  "RemoveVertex (fst createStore :: (int, string) Store) 3 = (fst createStore, None) \<and>
   RemoveEdge (fst createStore :: (int, string) Store) 1 2 = (fst createStore, None)"
  using Remove_absent_succeeds [of "fst createStore :: (int, string) Store" 3 1 2]
  by (simp add: store_eval view_eval)

text \<open>
  C8. \<open>ListEdges\<close> decodes the attributes of every row of the edges table, and one row
  that fails ends the whole listing. If the attributes of any row (the row at any index
  \<open>i\<close>) scan but do not decode, \<open>ListEdges\<close> returns an error and no edges. Whenever it
  returns an error it returns no edges. And when it returns no error, it returns one edge
  for every row, in the order of the rows, with the row's hashes, weight and data and with
  the attributes decoded from the row's text.
\<close>

theorem ListEdges_all_or_nothing:
  "(i < length (edge_rows s) \<and> scan_bytes 3 ((edge_rows s ! i) ''attributes'') = Inr ab \<and>
    snd (UnmarshalAttributes j ab Map.empty) = Some m \<longrightarrow>
      fst (ListEdges j s) = [] \<and> snd (ListEdges j s) \<noteq> None) \<and>
   (snd (ListEdges j s) \<noteq> None \<longrightarrow> fst (ListEdges j s) = []) \<and>
   (snd (ListEdges j s) = None \<longrightarrow>
      list_all2
        (\<lambda>r e. r ''source_hash'' = Some (SQLKey (Source e)) \<and>
               r ''target_hash'' = Some (SQLKey (Target e)) \<and>
               r ''weight'' = Some (SQLInt (Weight (Properties e))) \<and>
               DriverValue (r ''data'') = Data (Properties e) \<and>
               (\<exists>ab. scan_bytes 3 (r ''attributes'') = Inr ab \<and>
                     UnmarshalAttributes j ab Map.empty = (Attributes (Properties e), None)))
        (edge_rows s) (fst (ListEdges j s)))"
proof (cases "edges_ready s")
  case False
  from ListEdges_not_ready [OF this, of j] show ?thesis
    by (cases "snd (ListEdges j s)") simp_all
next
  case True
  note eq = ListEdges_ready [OF True, of j]
  have 1: "fst (ListEdges j s) = [] \<and> snd (ListEdges j s) \<noteq> None"
    if "i < length (edge_rows s)" and "scan_bytes 3 ((edge_rows s ! i) ''attributes'') = Inr ab"
      and "snd (UnmarshalAttributes j ab Map.empty) = Some m"
  proof -
    from that(2,3) obtain err where "scan_edge_row j (edge_cells (edge_rows s ! i)) = Inl err"
      using scan_edge_row_undecodable by blast
    moreover from that(1) have "edge_cells (edge_rows s ! i) \<in> set (map edge_cells (edge_rows s))"
      by simp
    ultimately show ?thesis
      unfolding eq by (rule ListEdges_loop_fails [rotated])
  qed
  have 2: "fst (ListEdges j s) = []" if "snd (ListEdges j s) \<noteq> None"
    using that unfolding eq by (rule ListEdges_loop_error)
  have 3: "list_all2
        (\<lambda>r e. r ''source_hash'' = Some (SQLKey (Source e)) \<and>
               r ''target_hash'' = Some (SQLKey (Target e)) \<and>
               r ''weight'' = Some (SQLInt (Weight (Properties e))) \<and>
               DriverValue (r ''data'') = Data (Properties e) \<and>
               (\<exists>ab. scan_bytes 3 (r ''attributes'') = Inr ab \<and>
                     UnmarshalAttributes j ab Map.empty = (Attributes (Properties e), None)))
        (edge_rows s) (fst (ListEdges j s))" if "snd (ListEdges j s) = None"
  proof -
    from that obtain es where es: "fst (ListEdges j s) = es"
      and all: "list_all2 (\<lambda>r e. scan_edge_row j r = Inr e) (map edge_cells (edge_rows s)) es"
      unfolding eq using ListEdges_loop_success [of j "map edge_cells (edge_rows s)" "[]"]
      by auto
    from all have "list_all2 (\<lambda>r e. scan_edge_row j (edge_cells r) = Inr e) (edge_rows s) es"
      by (simp add: list_all2_map1)
    then show ?thesis
      unfolding es by (rule list_all2_mono) (rule scan_edge_row_Inr)
  qed
  from 1 2 3 show ?thesis by blast
qed

theorem ListEdges_all_or_nothing_witness:
  \<open>fst (ListEdges (json_of_table [] [(Map.empty, ''null'')] (0 :: int))
     (run test_json
        [CallAddEdge 1 2 \<lparr>Source = 1, Target = 2, Properties = zeroEdgeProperties\<rparr>,
         CallAddEdge 2 1 \<lparr>Source = 2, Target = 1, Properties =
           \<lparr>Attributes = [''abc'' \<mapsto> ''xyz''], Weight = 5, Data = DriverValue None\<rparr>\<rparr>]
        (fst createStore :: (int, string) Store))) = [] \<and>
   snd (ListEdges (json_of_table [] [(Map.empty, ''null'')] (0 :: int))
     (run test_json
        [CallAddEdge 1 2 \<lparr>Source = 1, Target = 2, Properties = zeroEdgeProperties\<rparr>,
         CallAddEdge 2 1 \<lparr>Source = 2, Target = 1, Properties =
           \<lparr>Attributes = [''abc'' \<mapsto> ''xyz''], Weight = 5, Data = DriverValue None\<rparr>\<rparr>]
        (fst createStore :: (int, string) Store))) \<noteq> None \<and>
   length (fst (ListEdges test_json
     (run test_json
        [CallAddEdge 1 2 \<lparr>Source = 1, Target = 2, Properties = zeroEdgeProperties\<rparr>,
         CallAddEdge 2 1 \<lparr>Source = 2, Target = 1, Properties =
           \<lparr>Attributes = [''abc'' \<mapsto> ''xyz''], Weight = 5, Data = DriverValue None\<rparr>\<rparr>]
        (fst createStore :: (int, string) Store)))) = 2\<close>
proof -
  let ?j = "json_of_table [] [(Map.empty, ''null'')] (0 :: int)"
  let ?s = "run test_json
        [CallAddEdge 1 2 \<lparr>Source = 1, Target = 2, Properties = zeroEdgeProperties\<rparr>,
         CallAddEdge 2 1 \<lparr>Source = 2, Target = 1, Properties =
           \<lparr>Attributes = [''abc'' \<mapsto> ''xyz''], Weight = 5, Data = DriverValue None\<rparr>\<rparr>]
        (fst createStore :: (int, string) Store)"
  have len: "length (edge_rows ?s) = 2"
    by (simp add: store_eval view_eval)
  have bytes: \<open>scan_bytes 3 ((edge_rows ?s ! 1) ''attributes'') = Inr ''{"abc":"xyz"}''\<close>
    by (simp add: store_eval view_eval)
  have undecodable: \<open>snd (UnmarshalAttributes ?j ''{"abc":"xyz"}'' Map.empty) =
      Some ''json: cannot unmarshal''\<close>
    by (simp add: json_of_table_def)
  have a: "fst (ListEdges ?j ?s) = [] \<and> snd (ListEdges ?j ?s) \<noteq> None"
    using ListEdges_all_or_nothing [where s = ?s and j = ?j and i = 1
        and ab = \<open>''{"abc":"xyz"}''\<close> and m = "''json: cannot unmarshal''", THEN conjunct1]
      len bytes undecodable by simp
  have b: "fst (ListEdges ?j ?s) = []"
    using ListEdges_all_or_nothing [where s = ?s and j = ?j, THEN conjunct2, THEN conjunct1] a
    by simp
  have ok: "snd (ListEdges test_json ?s) = None"
    by (simp add: ListEdges_def selection_columns_def scan_edge_row_def store_eval)
  have c: "length (fst (ListEdges test_json ?s)) = 2"
    using ListEdges_all_or_nothing [where s = ?s and j = test_json,
        THEN conjunct2, THEN conjunct2] ok len
    by (auto dest: list_all2_lengthD)
  from a b c show ?thesis by simp
qed



text \<open>
  C10. The edge that \<open>Edge\<close> returns carries the two hashes it was asked for as its
  \<open>Source\<close> and \<open>Target\<close>, whatever the database holds and whether the call succeeds,
  reports that the edge is not found, or fails in any other way.
\<close>

theorem Edge_Source_Target:
  "Source (fst (Edge j s sourceHash targetHash)) = sourceHash \<and>
   Target (fst (Edge j s sourceHash targetHash)) = targetHash"
  by (simp add: Edge_def Let_def split: sum.split list.split prod.split option.split)

end
